theory Spec2Isabelle
  imports Main
begin

text \<open>
  The calendar dialogue of \<^verbatim>\<open>CalendarDialogueComponent.cpp\<close>: a component that asks for
  the name, the date, the duration, the location, the notes and the priority of an event,
  one question per state, checks each answer, asks for a confirmation and hands the record
  to the backend manager. The functions of the component are written as functions on its
  two members, \<^verbatim>\<open>CurrentState\<close> and \<^verbatim>\<open>EventData\<close>, that return the component as they
  leave it together with what they have logged, broadcast and sent.
\<close>

section \<open>Engine strings and numbers\<close>

text \<open>
  \<^verbatim>\<open>FString\<close> is a sequence of code units; the model writes it as a \<^typ>\<open>string\<close>,
  one \<^typ>\<open>char\<close> per code unit, so that \<^verbatim>\<open>Len()\<close> is \<^const>\<open>length\<close> and
  \<^verbatim>\<open>IsEmpty()\<close> is comparison with the empty list. The engine functions used by
  \<^verbatim>\<open>CalendarDialogueComponent.cpp\<close> are written out below with the behaviour they
  have on such strings.
\<close>

type_synonym FString = string

text \<open>\<^verbatim>\<open>FChar::IsDigit\<close>: the ten decimal digits.\<close>

definition IsDigit :: "char \<Rightarrow> bool" where
  "IsDigit c = (c \<in> set ''0123456789'')"

text \<open>\<^verbatim>\<open>FChar::IsWhitespace\<close>: blank, tab, line feed, vertical tab, form feed, carriage return.\<close>

definition IsWhitespace :: "char \<Rightarrow> bool" where
  "IsWhitespace c = (c \<in> set [CHR '' '', CHR 0x09, CHR 0x0A, CHR 0x0B, CHR 0x0C, CHR 0x0D])"

text \<open>\<^verbatim>\<open>FChar::ToLower\<close> and \<^verbatim>\<open>FString::ToLower\<close>: the letters A to Z are mapped, every other code unit is kept.\<close>

definition ToLowerChar :: "char \<Rightarrow> char" where
  "ToLowerChar c =
     (case map_of (zip ''ABCDEFGHIJKLMNOPQRSTUVWXYZ'' ''abcdefghijklmnopqrstuvwxyz'') c of
        Some l \<Rightarrow> l
      | None \<Rightarrow> c)"

definition ToLower :: "FString \<Rightarrow> FString" where
  "ToLower s = map ToLowerChar s"

text \<open>\<^verbatim>\<open>FString::TrimStartAndEnd\<close>: whitespace is removed from both ends, nothing inside.\<close>

definition TrimStart :: "FString \<Rightarrow> FString" where
  "TrimStart s = dropWhile IsWhitespace s"

definition TrimEnd :: "FString \<Rightarrow> FString" where
  "TrimEnd s = rev (dropWhile IsWhitespace (rev s))"

definition TrimStartAndEnd :: "FString \<Rightarrow> FString" where
  "TrimStartAndEnd s = TrimStart (TrimEnd s)"

text \<open>
  \<^verbatim>\<open>FString::operator==\<close> and \<^verbatim>\<open>FString::Contains\<close> (with its default search case)
  compare without regard to letter case.
\<close>

definition FStringEq :: "FString \<Rightarrow> FString \<Rightarrow> bool" where
  "FStringEq a b = (ToLower a = ToLower b)"

fun StartsWith :: "FString \<Rightarrow> FString \<Rightarrow> bool" where
  "StartsWith s [] = True"
| "StartsWith [] (p # ps) = False"
| "StartsWith (c # cs) (p # ps) = (ToLowerChar c = ToLowerChar p \<and> StartsWith cs ps)"

fun FindFrom :: "FString \<Rightarrow> FString \<Rightarrow> bool" where
  "FindFrom [] SubStr = False"
| "FindFrom (c # cs) SubStr = (StartsWith (c # cs) SubStr \<or> FindFrom cs SubStr)"

definition Contains :: "FString \<Rightarrow> FString \<Rightarrow> bool" where
  "Contains s SubStr = (SubStr \<noteq> [] \<and> FindFrom s SubStr)"

text \<open>
  \<^verbatim>\<open>int32\<close> values are integers between \<open>INT32_MIN\<close> and \<open>INT32_MAX\<close>; an arithmetic
  result outside that range is reduced modulo \<open>2 ^ 32\<close> by \<open>wrap32\<close>.
\<close>

definition INT32_MAX :: int where
  "INT32_MAX = 2147483647"

definition INT32_MIN :: int where
  "INT32_MIN = - 2147483648"

definition wrap32 :: "int \<Rightarrow> int" where
  "wrap32 x = (x + 2147483648) mod 4294967296 - 2147483648"

text \<open>
  \<^verbatim>\<open>FCString::Atoi\<close> hands the text to the C runtime's conversion. The component calls it
  on a run of digits only; \<open>DecimalValue\<close> is the number the leading digits denote, and a
  number beyond \<open>INT32_MAX\<close> is returned as \<open>INT32_MAX\<close>, as the Microsoft runtime does.
\<close>

definition DigitValue :: "char \<Rightarrow> int" where
  "DigitValue c =
     (case map_of (zip ''0123456789'' [0, 1, 2, 3, 4, 5, 6, 7, 8, 9]) c of
        Some d \<Rightarrow> d
      | None \<Rightarrow> 0)"

fun DecimalValue :: "int \<Rightarrow> FString \<Rightarrow> int" where
  "DecimalValue acc [] = acc"
| "DecimalValue acc (c # cs) = (if IsDigit c then DecimalValue (acc * 10 + DigitValue c) cs else acc)"

definition Atoi :: "FString \<Rightarrow> int" where
  "Atoi s = (let v = DecimalValue 0 s in if v > INT32_MAX then INT32_MAX else v)"

text \<open>\<^verbatim>\<open>FString::Printf\<close> with \<^verbatim>\<open>%d\<close>: the decimal digits of an \<^verbatim>\<open>int32\<close>, with a sign when negative.\<close>

fun NatToString :: "nat \<Rightarrow> FString" where
  "NatToString n =
     (if n < 10 then [''0123456789'' ! n]
      else NatToString (n div 10) @ [''0123456789'' ! (n mod 10)])"

definition IntToString :: "int \<Rightarrow> FString" where
  "IntToString i = (if i < 0 then CHR ''-'' # NatToString (nat (- i)) else NatToString (nat i))"

section \<open>Number extraction\<close>

text \<open>
  \<^verbatim>\<open>ExtractNumber\<close> walks over the input once. \<open>ExtractNumber_loop\<close> is the body of its
  \<^verbatim>\<open>for\<close> loop, with \<^verbatim>\<open>NumberStr\<close> as the accumulator: a digit is appended, any other
  character ends the loop once \<^verbatim>\<open>NumberStr\<close> is non-empty.
\<close>

fun ExtractNumber_loop :: "FString \<Rightarrow> FString \<Rightarrow> FString" where
  "ExtractNumber_loop [] NumberStr = NumberStr"
| "ExtractNumber_loop (Ch # rest) NumberStr =
     (if IsDigit Ch then ExtractNumber_loop rest (NumberStr @ [Ch])
      else if NumberStr \<noteq> [] then NumberStr
      else ExtractNumber_loop rest NumberStr)"

definition ExtractNumber :: "FString \<Rightarrow> int" where
  "ExtractNumber Input =
     (let NumberStr = ExtractNumber_loop Input []
      in if NumberStr = [] then 0 else Atoi NumberStr)"

section \<open>Duration parsing\<close>

definition ParseDuration :: "FString \<Rightarrow> int" where
  "ParseDuration Input =
     (let Lower = TrimStartAndEnd (ToLower Input);
          Number = ExtractNumber Lower
      in if Number \<le> 0 then 0
         else if Contains Lower ''hour'' then wrap32 (Number * 60)
         else if Contains Lower ''minute'' \<or> Contains Lower ''min'' then Number
         else Number)"

section \<open>Dates\<close>

text \<open>
  An \<^verbatim>\<open>FDateTime\<close> is a count of ticks of 100 nanoseconds since midnight of
  0001-01-01; \<^verbatim>\<open>FDateTime()\<close> and \<^verbatim>\<open>FDateTime::MinValue()\<close> are both 0 ticks, and
  comparison is comparison of ticks. \<open>DayOf\<close> is the number of the calendar day a value
  lies in. \<^verbatim>\<open>GetYear\<close>, \<^verbatim>\<open>GetMonth\<close> and \<^verbatim>\<open>GetDay\<close> name that day, and the
  constructor \<^verbatim>\<open>FDateTime(Year, Month, Day, Hour, 0, 0)\<close> turns the day and the hour back
  into ticks, so the expression
  \<^verbatim>\<open>FDateTime(Result.GetYear(), Result.GetMonth(), Result.GetDay(), Hour, 0, 0)\<close>
  is \<open>Hour\<close> hours after the midnight that starts the day of \<open>Result\<close>. The constructor
  validates its arguments: an hour outside 0..23 is refused by the engine, which is the
  error \<open>InvalidDateValues\<close> here.
\<close>

type_synonym FDateTime = int

definition TicksPerHour :: int where
  "TicksPerHour = 36000000000"

definition TicksPerDay :: int where
  "TicksPerDay = 864000000000"

definition MinValue :: FDateTime where
  "MinValue = 0"

definition FromDays :: "int \<Rightarrow> int" where
  "FromDays Days = Days * TicksPerDay"

definition DayOf :: "FDateTime \<Rightarrow> int" where
  "DayOf t = t div TicksPerDay"

datatype error = InvalidDateValues

definition FDateTime_YMDH :: "FDateTime \<Rightarrow> int \<Rightarrow> error + FDateTime" where
  "FDateTime_YMDH Result Hour =
     (if 0 \<le> Hour \<and> Hour \<le> 23 then Inr (DayOf Result * TicksPerDay + Hour * TicksPerHour)
      else Inl InvalidDateValues)"

section \<open>The component and its surroundings\<close>

datatype ECalendarDialogueState =
    Idle
  | AskingEventName
  | AskingDateTime
  | AskingDuration
  | AskingLocation
  | AskingNotes
  | AskingPriority
  | Confirming
  | Creating
  | Complete

text \<open>The value of \<^verbatim>\<open>(int32)CurrentState\<close>: the position in the enumeration.\<close>

fun StateIndex :: "ECalendarDialogueState \<Rightarrow> int" where
  "StateIndex Idle = 0"
| "StateIndex AskingEventName = 1"
| "StateIndex AskingDateTime = 2"
| "StateIndex AskingDuration = 3"
| "StateIndex AskingLocation = 4"
| "StateIndex AskingNotes = 5"
| "StateIndex AskingPriority = 6"
| "StateIndex Confirming = 7"
| "StateIndex Creating = 8"
| "StateIndex Complete = 9"

record FCalendarEventData =
  EventName :: FString
  DateTime :: FDateTime
  DurationMinutes :: int
  Location :: FString
  Notes :: FString
  Priority :: int
  bIsValid :: bool

text \<open>\<^verbatim>\<open>FCalendarEventData()\<close>: the member initialisers of the struct.\<close>

definition FCalendarEventData_default :: FCalendarEventData where
  "FCalendarEventData_default =
     \<lparr>EventName = [], DateTime = 0, DurationMinutes = 60, Location = [], Notes = [],
      Priority = 5, bIsValid = False\<rparr>"

record UCalendarDialogueComponent =
  CurrentState :: ECalendarDialogueState
  EventData :: FCalendarEventData

text \<open>The constructor of the component.\<close>

definition UCalendarDialogueComponent_new :: UCalendarDialogueComponent where
  "UCalendarDialogueComponent_new =
     \<lparr>CurrentState = Idle, EventData = FCalendarEventData_default\<rparr>"

definition GetCurrentState :: "UCalendarDialogueComponent \<Rightarrow> ECalendarDialogueState" where
  "GetCurrentState c = CurrentState c"

definition GetEventData :: "UCalendarDialogueComponent \<Rightarrow> FCalendarEventData" where
  "GetEventData c = EventData c"

definition IsInCalendarFlow :: "UCalendarDialogueComponent \<Rightarrow> bool" where
  "IsInCalendarFlow c = (CurrentState c \<noteq> Idle)"

text \<open>
  What a call of the component does to the outside is a list of effects, in the order in
  which they happen: a line written by \<^verbatim>\<open>UE_LOG\<close>, a broadcast of one of the three
  delegates, or a text given to the manager actor. The manager's
  \<^verbatim>\<open>SendMessageToBackend\<close> is not declared in \<^verbatim>\<open>AICompanionManager.h\<close>; the call is
  recorded with the manager and the text it is given, and nothing is said about what the
  manager does with it.

  A broadcast runs the handlers that are bound to the delegate before it returns, and
  the call of the manager runs the manager: code outside the component, in the middle of
  a function of the component. Each of these four effects is therefore recorded with the
  component as it is at that moment, which is what \<^verbatim>\<open>GetCurrentState\<close> and
  \<^verbatim>\<open>GetEventData\<close> return to that code. The handlers are taken to read the component
  and not to call it.
\<close>

datatype ELogVerbosity = Warning | Log

type_synonym AAICompanionManager = nat

datatype effect =
    UE_LOG ELogVerbosity FString
  | OnAskQuestion UCalendarDialogueComponent FString
  | OnEventCreated UCalendarDialogueComponent FCalendarEventData
  | OnFlowCancelled UCalendarDialogueComponent
  | SendMessageToBackend UCalendarDialogueComponent AAICompanionManager FString

text \<open>
  What a call reads from the outside: the clock (\<^verbatim>\<open>FDateTime::Now()\<close>), the actors
  that \<^verbatim>\<open>GetAllActorsOfClass\<close> finds (an entry \<open>None\<close> is an actor on which the cast
  to the manager class gives null), and the engine's three date formatters, which are
  taken as they are.
\<close>

record World =
  Now :: FDateTime
  FoundActors :: "AAICompanionManager option list"
  ToString :: "FDateTime \<Rightarrow> FString"
  ToStringFormat :: "FString \<Rightarrow> FDateTime \<Rightarrow> FString"
  ToIso8601 :: "FDateTime \<Rightarrow> FString"

definition LogCalendar :: "FString \<Rightarrow> bool \<Rightarrow> effect list" where
  "LogCalendar Message bWarning =
     (if bWarning then [UE_LOG Warning (''[CalendarDialogue] '' @ Message)]
      else [UE_LOG Log (''[CalendarDialogue] '' @ Message)])"

section \<open>Helpers of the component\<close>

text \<open>
  The block that reads the hour, which \<^verbatim>\<open>ParseDateTime\<close> has once under "tomorrow"
  and once under "today".
\<close>

definition ParseDateTime_hour :: "FString \<Rightarrow> FDateTime \<Rightarrow> error + FDateTime" where
  "ParseDateTime_hour Lower Result =
     (if Contains Lower ''at'' then
        (let Hour =
           (if Contains Lower ''pm'' then
              (let Hour = ExtractNumber Lower in if Hour < 12 then Hour + 12 else Hour)
            else if Contains Lower ''am'' then ExtractNumber Lower
            else 12)
         in FDateTime_YMDH Result Hour)
      else Inr Result)"

definition ParseDateTime :: "World \<Rightarrow> FString \<Rightarrow> error + (FDateTime \<times> effect list)" where
  "ParseDateTime w Input =
     (let Lower = TrimStartAndEnd (ToLower Input) in
      if Contains Lower ''tomorrow'' then
        (case ParseDateTime_hour Lower (Now w + FromDays 1) of
           Inl e \<Rightarrow> Inl e
         | Inr Result \<Rightarrow> Inr (Result, []))
      else if Contains Lower ''today'' then
        (case ParseDateTime_hour Lower (Now w) of
           Inl e \<Rightarrow> Inl e
         | Inr Result \<Rightarrow> Inr (Result, []))
      else Inr (MinValue, LogCalendar (''Could not parse datetime: '' @ Input) True))"

definition IsAffirmative :: "FString \<Rightarrow> bool" where
  "IsAffirmative Answer =
     (let Lower = TrimStartAndEnd (ToLower Answer) in
      FStringEq Lower ''yes'' \<or> FStringEq Lower ''yeah'' \<or> FStringEq Lower ''yep'' \<or>
      FStringEq Lower ''sure'' \<or> FStringEq Lower ''ok'' \<or> FStringEq Lower ''okay'' \<or>
      FStringEq Lower ''y'' \<or> FStringEq Lower ''confirm'' \<or> FStringEq Lower ''correct'' \<or>
      FStringEq Lower ''right'')"

text \<open>
  The pictographs that open the lines of the confirmation message, as the bytes the
  source file has for them.
\<close>

definition Glyph_Calendar :: FString where
  "Glyph_Calendar = [CHR 0xF0, CHR 0x9F, CHR 0x93, CHR 0x85]"

definition Glyph_Clock :: FString where
  "Glyph_Clock = [CHR 0xE2, CHR 0x8F, CHR 0xB0]"

definition Glyph_Stopwatch :: FString where
  "Glyph_Stopwatch = [CHR 0xE2, CHR 0x8F, CHR 0xB1, CHR 0xEF, CHR 0xB8, CHR 0x8F]"

definition Glyph_Pin :: FString where
  "Glyph_Pin = [CHR 0xF0, CHR 0x9F, CHR 0x93, CHR 0x8D]"

definition Glyph_Memo :: FString where
  "Glyph_Memo = [CHR 0xF0, CHR 0x9F, CHR 0x93, CHR 0x9D]"

definition Glyph_Star :: FString where
  "Glyph_Star = [CHR 0xE2, CHR 0xAD, CHR 0x90]"

definition GenerateConfirmationMessage :: "World \<Rightarrow> FCalendarEventData \<Rightarrow> FString" where
  "GenerateConfirmationMessage w e =
     ''Here's what I have:'' @ [CHR 0x0A, CHR 0x0A]
     @ Glyph_Calendar @ '' '' @ EventName e @ [CHR 0x0A]
     @ Glyph_Clock @ '' '' @ ToStringFormat w ''%B %d, %Y at %I:%M %p'' (DateTime e) @ [CHR 0x0A]
     @ Glyph_Stopwatch @ '' Duration: '' @ IntToString (DurationMinutes e) @ '' minutes'' @ [CHR 0x0A]
     @ (if Location e \<noteq> [] then Glyph_Pin @ '' '' @ Location e @ [CHR 0x0A] else [])
     @ (if Notes e \<noteq> [] then Glyph_Memo @ '' '' @ Notes e @ [CHR 0x0A] else [])
     @ Glyph_Star @ '' Priority: '' @ IntToString (Priority e) @ ''/10'' @ [CHR 0x0A, CHR 0x0A]
     @ ''Should I create this event?''"

text \<open>The text that \<^verbatim>\<open>SendEventToBackend\<close> builds for the manager.\<close>

definition BuildJSON :: "World \<Rightarrow> FCalendarEventData \<Rightarrow> FString" where
  \<open>BuildJSON w e =
     ''{''
     @ ''"type":"create_calendar_event",''
     @ ''"eventName":"'' @ EventName e @ ''",''
     @ ''"dateTime":"'' @ ToIso8601 w (DateTime e) @ ''",''
     @ ''"durationMinutes":'' @ IntToString (DurationMinutes e) @ '',''
     @ ''"location":"'' @ Location e @ ''",''
     @ ''"notes":"'' @ Notes e @ ''",''
     @ ''"priority":'' @ IntToString (Priority e)
     @ ''}''\<close>

definition SendEventToBackend ::
  "World \<Rightarrow> UCalendarDialogueComponent \<Rightarrow> UCalendarDialogueComponent \<times> effect list" where
  "SendEventToBackend w c =
     (case FoundActors w of
        [] \<Rightarrow>
          (c, LogCalendar ''Sending event to backend...'' False
              @ LogCalendar ''ERROR: Could not find AICompanionManager!'' True)
      | None # _ \<Rightarrow>
          (c, LogCalendar ''Sending event to backend...'' False
              @ LogCalendar ''ERROR: Failed to cast to AICompanionManager!'' True)
      | Some Manager # _ \<Rightarrow>
          (c, LogCalendar ''Sending event to backend...'' False
              @ [SendMessageToBackend c Manager (BuildJSON w (EventData c))]
              @ LogCalendar ''Event sent to backend successfully'' False
              @ [OnEventCreated c (EventData c)]))"

section \<open>Conversation flow\<close>

definition AskCurrentQuestion :: "World \<Rightarrow> UCalendarDialogueComponent \<Rightarrow> effect list" where
  "AskCurrentQuestion w c =
     (let ask = (\<lambda>Question. LogCalendar (''Asking: '' @ Question) False @ [OnAskQuestion c Question]) in
      case CurrentState c of
        AskingEventName \<Rightarrow> ask ''What would you like to call this event?''
      | AskingDateTime \<Rightarrow>
          ask ''When would you like to schedule it? (e.g., 'tomorrow at 2pm', 'November 5 at 3:30pm')''
      | AskingDuration \<Rightarrow> ask ''How long will it take? (e.g., '1 hour', '30 minutes')''
      | AskingLocation \<Rightarrow> ask ''Where will this take place? (or say 'none')''
      | AskingNotes \<Rightarrow> ask ''Any notes or details? (or say 'none')''
      | AskingPriority \<Rightarrow> ask ''How important is this event? (1-10, where 10 is most important)''
      | Confirming \<Rightarrow> ask (GenerateConfirmationMessage w (EventData c))
      | _ \<Rightarrow> [])"

definition AdvanceToNextState ::
  "World \<Rightarrow> UCalendarDialogueComponent \<Rightarrow> UCalendarDialogueComponent \<times> effect list" where
  "AdvanceToNextState w c =
     (let next = (\<lambda>s. (c\<lparr>CurrentState := s\<rparr>, AskCurrentQuestion w (c\<lparr>CurrentState := s\<rparr>))) in
      case CurrentState c of
        AskingEventName \<Rightarrow> next AskingDateTime
      | AskingDateTime \<Rightarrow> next AskingDuration
      | AskingDuration \<Rightarrow> next AskingLocation
      | AskingLocation \<Rightarrow> next AskingNotes
      | AskingNotes \<Rightarrow> next AskingPriority
      | AskingPriority \<Rightarrow> next Confirming
      | Confirming \<Rightarrow>
          (let c1 = c\<lparr>CurrentState := Creating\<rparr>;
               (c2, sent) = SendEventToBackend w c1;
               c3 = c2\<lparr>CurrentState := Complete\<rparr>;
               c4 = c3\<lparr>CurrentState := Idle\<rparr>
           in (c4, sent))
      | _ \<Rightarrow> (c\<lparr>CurrentState := Idle\<rparr>, []))"

definition StartEventCreation ::
  "World \<Rightarrow> UCalendarDialogueComponent \<Rightarrow> UCalendarDialogueComponent \<times> effect list" where
  "StartEventCreation w c =
     (let c1 = c\<lparr>EventData := FCalendarEventData_default\<rparr>;
          c2 = c1\<lparr>EventData := (EventData c1)\<lparr>bIsValid := False\<rparr>\<rparr>;
          c3 = c2\<lparr>CurrentState := AskingEventName\<rparr>
      in (c3, LogCalendar ''Starting calendar event creation flow'' False
              @ AskCurrentQuestion w c3))"

definition CancelFlow :: "UCalendarDialogueComponent \<Rightarrow> UCalendarDialogueComponent \<times> effect list" where
  "CancelFlow c =
     (let c1 = c\<lparr>CurrentState := Idle\<rparr>;
          c2 = c1\<lparr>EventData := FCalendarEventData_default\<rparr>
      in (c2, LogCalendar ''Calendar flow cancelled'' False @ [OnFlowCancelled c2]))"

section \<open>Answer processors\<close>

text \<open>
  Each processor returns its \<^verbatim>\<open>bool\<close>, the component as it has left it and the effects
  it has had.
\<close>

type_synonym answered = "bool \<times> UCalendarDialogueComponent \<times> effect list"

definition ProcessEventName :: "UCalendarDialogueComponent \<Rightarrow> FString \<Rightarrow> answered" where
  "ProcessEventName c Answer =
     (if Answer = [] \<or> length Answer < 2 then (False, c, [])
      else
        (let c1 = c\<lparr>EventData := (EventData c)\<lparr>EventName := TrimStartAndEnd Answer\<rparr>\<rparr>
         in (True, c1, LogCalendar (''Event name set: '' @ EventName (EventData c1)) False)))"

definition ProcessDateTime :: "World \<Rightarrow> UCalendarDialogueComponent \<Rightarrow> FString \<Rightarrow> error + answered" where
  "ProcessDateTime w c Answer =
     (case ParseDateTime w Answer of
        Inl e \<Rightarrow> Inl e
      | Inr (ParsedDateTime, parse_log) \<Rightarrow>
          if ParsedDateTime = MinValue then Inr (False, c, parse_log)
          else
            (let c1 = c\<lparr>EventData := (EventData c)\<lparr>DateTime := ParsedDateTime\<rparr>\<rparr>
             in Inr (True, c1,
                  parse_log
                  @ LogCalendar (''DateTime set: '' @ ToString w (DateTime (EventData c1))) False)))"

definition ProcessDuration :: "UCalendarDialogueComponent \<Rightarrow> FString \<Rightarrow> answered" where
  "ProcessDuration c Answer =
     (let Minutes = ParseDuration Answer in
      if Minutes \<le> 0 then (False, c, [])
      else
        (let c1 = c\<lparr>EventData := (EventData c)\<lparr>DurationMinutes := Minutes\<rparr>\<rparr>
         in (True, c1,
              LogCalendar (''Duration set: '' @ IntToString (DurationMinutes (EventData c1))
                           @ '' minutes'') False)))"

definition ProcessLocation :: "UCalendarDialogueComponent \<Rightarrow> FString \<Rightarrow> answered" where
  "ProcessLocation c Answer =
     (let Trimmed = ToLower (TrimStartAndEnd Answer) in
      if FStringEq Trimmed ''none'' \<or> FStringEq Trimmed ''no'' \<or> FStringEq Trimmed ''skip'' then
        (True, c\<lparr>EventData := (EventData c)\<lparr>Location := []\<rparr>\<rparr>, LogCalendar ''Location: none'' False)
      else
        (let c1 = c\<lparr>EventData := (EventData c)\<lparr>Location := TrimStartAndEnd Answer\<rparr>\<rparr>
         in (True, c1, LogCalendar (''Location set: '' @ Location (EventData c1)) False)))"

definition ProcessNotes :: "UCalendarDialogueComponent \<Rightarrow> FString \<Rightarrow> answered" where
  "ProcessNotes c Answer =
     (let Trimmed = ToLower (TrimStartAndEnd Answer) in
      if FStringEq Trimmed ''none'' \<or> FStringEq Trimmed ''no'' \<or> FStringEq Trimmed ''skip'' then
        (True, c\<lparr>EventData := (EventData c)\<lparr>Notes := []\<rparr>\<rparr>, LogCalendar ''Notes: none'' False)
      else
        (let c1 = c\<lparr>EventData := (EventData c)\<lparr>Notes := TrimStartAndEnd Answer\<rparr>\<rparr>
         in (True, c1, LogCalendar (''Notes set: '' @ Notes (EventData c1)) False)))"

definition ProcessPriority :: "UCalendarDialogueComponent \<Rightarrow> FString \<Rightarrow> answered" where
  "ProcessPriority c Answer =
     (let Priority = ExtractNumber Answer in
      if Priority < 1 \<or> Priority > 10 then (False, c, [])
      else
        (let c1 = c\<lparr>EventData := (EventData c)\<lparr>Priority := Priority\<rparr>\<rparr>
         in (True, c1,
              LogCalendar (''Priority set: '' @ IntToString (FCalendarEventData.Priority (EventData c1))) False)))"

definition ProcessConfirmation :: "UCalendarDialogueComponent \<Rightarrow> FString \<Rightarrow> answered" where
  "ProcessConfirmation c Answer =
     (let bConfirmed = IsAffirmative Answer in
      if \<not> bConfirmed then
        (let (c1, cancelled) = CancelFlow c
         in (False, c1, LogCalendar ''Event creation cancelled by user'' False @ cancelled))
      else
        (True, c\<lparr>EventData := (EventData c)\<lparr>bIsValid := True\<rparr>\<rparr>,
         LogCalendar ''Event confirmed by user'' False))"

definition ProcessAnswer :: "World \<Rightarrow> UCalendarDialogueComponent \<Rightarrow> FString \<Rightarrow> error + answered" where
  "ProcessAnswer w c Answer =
     (case CurrentState c of
        AskingEventName \<Rightarrow> Inr (ProcessEventName c Answer)
      | AskingDateTime \<Rightarrow> ProcessDateTime w c Answer
      | AskingDuration \<Rightarrow> Inr (ProcessDuration c Answer)
      | AskingLocation \<Rightarrow> Inr (ProcessLocation c Answer)
      | AskingNotes \<Rightarrow> Inr (ProcessNotes c Answer)
      | AskingPriority \<Rightarrow> Inr (ProcessPriority c Answer)
      | Confirming \<Rightarrow> Inr (ProcessConfirmation c Answer)
      | _ \<Rightarrow> Inr (False, c, []))"

section \<open>The public operations\<close>

definition ProcessUserResponse ::
  "World \<Rightarrow> UCalendarDialogueComponent \<Rightarrow> FString
     \<Rightarrow> error + (UCalendarDialogueComponent \<times> effect list)" where
  "ProcessUserResponse w c Response =
     (if CurrentState c = Idle then
        Inr (c, LogCalendar ''Received response but not in calendar flow - ignoring'' True)
      else
        (let processing =
               LogCalendar (''Processing response in state '' @ IntToString (StateIndex (CurrentState c))
                            @ '': '' @ Response) False
         in case ProcessAnswer w c Response of
              Inl e \<Rightarrow> Inl e
            | Inr (bSuccess, c1, answered) \<Rightarrow>
                if bSuccess then
                  (let (c2, advanced) = AdvanceToNextState w c1
                   in Inr (c2, processing @ answered @ advanced))
                else
                  Inr (c1, processing @ answered
                           @ LogCalendar ''Invalid answer, asking again'' True
                           @ AskCurrentQuestion w c1)))"

text \<open>
  A caller of the component makes its public calls one after the other, each against the
  world as it is at that moment. \<open>Run\<close> makes a list of such calls and collects the
  effects; it stops at the first call that the engine refuses.
\<close>

datatype call = Call_StartEventCreation | Call_ProcessUserResponse FString | Call_CancelFlow

fun Invoke ::
  "World \<Rightarrow> call \<Rightarrow> UCalendarDialogueComponent
     \<Rightarrow> error + (UCalendarDialogueComponent \<times> effect list)" where
  "Invoke w Call_StartEventCreation c = Inr (StartEventCreation w c)"
| "Invoke w (Call_ProcessUserResponse Response) c = ProcessUserResponse w c Response"
| "Invoke w Call_CancelFlow c = Inr (CancelFlow c)"

fun Run ::
  "(World \<times> call) list \<Rightarrow> UCalendarDialogueComponent
     \<Rightarrow> error + (UCalendarDialogueComponent \<times> effect list)" where
  "Run [] c = Inr (c, [])"
| "Run ((w, k) # rest) c =
     (case Invoke w k c of
        Inl e \<Rightarrow> Inl e
      | Inr (c1, first) \<Rightarrow>
          (case Run rest c1 of
             Inl e \<Rightarrow> Inl e
           | Inr (c2, later) \<Rightarrow> Inr (c2, first @ later)))"

section \<open>Observations\<close>

text \<open>
  What a listener of one kind sees of a list of effects: the questions broadcast by
  \<^verbatim>\<open>OnAskQuestion\<close>, the records broadcast by \<^verbatim>\<open>OnEventCreated\<close>, the number of
  broadcasts of \<^verbatim>\<open>OnFlowCancelled\<close>, the texts given to a manager, and the log lines.
\<close>

fun Questions :: "effect list \<Rightarrow> FString list" where
  "Questions [] = []"
| "Questions (OnAskQuestion c Question # es) = Question # Questions es"
| "Questions (_ # es) = Questions es"

fun EventsCreated :: "effect list \<Rightarrow> FCalendarEventData list" where
  "EventsCreated [] = []"
| "EventsCreated (OnEventCreated c e # es) = e # EventsCreated es"
| "EventsCreated (_ # es) = EventsCreated es"

fun Cancellations :: "effect list \<Rightarrow> nat" where
  "Cancellations [] = 0"
| "Cancellations (OnFlowCancelled c # es) = Suc (Cancellations es)"
| "Cancellations (_ # es) = Cancellations es"

fun BackendMessages :: "effect list \<Rightarrow> (AAICompanionManager \<times> FString) list" where
  "BackendMessages [] = []"
| "BackendMessages (SendMessageToBackend c Manager JSON # es) = (Manager, JSON) # BackendMessages es"
| "BackendMessages (_ # es) = BackendMessages es"

fun LogLines :: "effect list \<Rightarrow> (ELogVerbosity \<times> FString) list" where
  "LogLines [] = []"
| "LogLines (UE_LOG v Line # es) = (v, Line) # LogLines es"
| "LogLines (_ # es) = LogLines es"

text \<open>
  The component that the code run by an effect finds (a log line runs none), and the
  effects of the hand-off: the call of the manager and the broadcast of
  \<^verbatim>\<open>OnEventCreated\<close>.
\<close>

fun Outside :: "effect \<Rightarrow> UCalendarDialogueComponent option" where
  "Outside (UE_LOG v Line) = None"
| "Outside (OnAskQuestion c Question) = Some c"
| "Outside (OnEventCreated c e) = Some c"
| "Outside (OnFlowCancelled c) = Some c"
| "Outside (SendMessageToBackend c Manager JSON) = Some c"

fun HandOff :: "effect \<Rightarrow> bool" where
  "HandOff (OnEventCreated c e) = True"
| "HandOff (SendMessageToBackend c Manager JSON) = True"
| "HandOff _ = False"

fun StatesSeen :: "effect list \<Rightarrow> ECalendarDialogueState list" where
  "StatesSeen [] = []"
| "StatesSeen (e # es) =
     (case Outside e of
        None \<Rightarrow> StatesSeen es
      | Some c \<Rightarrow> GetCurrentState c # StatesSeen es)"

text \<open>
  An effect is in place when the code it runs never finds the component in
  \<^verbatim>\<open>Complete\<close>, and finds it in \<^verbatim>\<open>Creating\<close> exactly when the effect belongs to the
  hand-off.
\<close>

definition InPlace :: "effect \<Rightarrow> bool" where
  "InPlace e =
     (case Outside e of
        None \<Rightarrow> True
      | Some c \<Rightarrow> CurrentState c \<noteq> Complete \<and> (CurrentState c = Creating) = HandOff e)"

text \<open>The component and the effects of a run that the engine did not refuse.\<close>

fun FinalComponent ::
  "error + (UCalendarDialogueComponent \<times> effect list) \<Rightarrow> UCalendarDialogueComponent option" where
  "FinalComponent (Inl e) = None"
| "FinalComponent (Inr (c, out)) = Some c"

fun AllEffects :: "error + (UCalendarDialogueComponent \<times> effect list) \<Rightarrow> effect list" where
  "AllEffects (Inl e) = []"
| "AllEffects (Inr (c, out)) = out"

text \<open>
  A world to run examples in: the clock stands ten minutes before a midnight, one manager
  actor is placed in the level, and a date is printed as its number of ticks.
\<close>

definition ExampleWorld :: World where
  "ExampleWorld =
     \<lparr>Now = 638000058000000000, FoundActors = [Some 0], ToString = IntToString,
      ToStringFormat = (\<lambda>Format. IntToString), ToIso8601 = IntToString\<rparr>"

text \<open>
  The flow that the specification runs: the start and its seven answers, the call number
  \<open>i\<close> made in the world \<open>w i\<close>.
\<close>

definition HappyPath :: "(nat \<Rightarrow> World) \<Rightarrow> (World \<times> call) list" where
  "HappyPath w =
     [(w 0, Call_StartEventCreation),
      (w 1, Call_ProcessUserResponse ''Dentist''),
      (w 2, Call_ProcessUserResponse ''tomorrow at 2pm''),
      (w 3, Call_ProcessUserResponse ''1 hour''),
      (w 4, Call_ProcessUserResponse ''none''),
      (w 5, Call_ProcessUserResponse ''none''),
      (w 6, Call_ProcessUserResponse ''8''),
      (w 7, Call_ProcessUserResponse ''yes'')]"

text \<open>
  Two courses of the clock for it: one in which nothing moves, and one in which midnight
  passes between the first answer and the second (the clock of \<open>ExampleWorld\<close> and
  twenty minutes later).
\<close>

definition SameEvening :: "nat \<Rightarrow> World" where
  "SameEvening i = ExampleWorld"

definition OverMidnight :: "nat \<Rightarrow> World" where
  "OverMidnight i = (if i < 2 then ExampleWorld else ExampleWorld\<lparr>Now := 638000070000000000\<rparr>)"

section \<open>Properties of number extraction\<close>

lemma ExtractNumber_loop_started:
  "NumberStr \<noteq> [] \<Longrightarrow> ExtractNumber_loop s NumberStr = NumberStr @ takeWhile IsDigit s"
  by (induction s arbitrary: NumberStr) auto

lemma ExtractNumber_loop_fresh:
  "ExtractNumber_loop s [] = takeWhile IsDigit (dropWhile (\<lambda>c. \<not> IsDigit c) s)"
  by (induction s) (auto simp: ExtractNumber_loop_started)

lemma ExtractNumber_loop_no_digit:
  "(\<forall>c \<in> set s. \<not> IsDigit c) \<Longrightarrow> ExtractNumber_loop s [] = []"
  by (induction s) auto

text \<open>
  Claim C8. For every input, \<^verbatim>\<open>ExtractNumber\<close> converts the first maximal run of digits:
  the characters before the first digit are skipped, the digits up to the next non-digit
  are collected, and nothing after that is looked at; with no digit in the input the
  result is 0. In particular the two inputs of the specification give 2 and 0.
\<close>

theorem ExtractNumber_first_run:
  "ExtractNumber Input =
     (let run = takeWhile IsDigit (dropWhile (\<lambda>c. \<not> IsDigit c) Input)
      in if run = [] then 0 else Atoi run)
   \<and> ((\<forall>c \<in> set Input. \<not> IsDigit c) \<longrightarrow> ExtractNumber Input = 0)
   \<and> ExtractNumber ''abc 2pm and 30 min'' = 2
   \<and> ExtractNumber ''no digits'' = 0"
proof -
  have general: "ExtractNumber Input =
     (let run = takeWhile IsDigit (dropWhile (\<lambda>c. \<not> IsDigit c) Input)
      in if run = [] then 0 else Atoi run)"
    by (simp add: ExtractNumber_def ExtractNumber_loop_fresh)
  have none: "(\<forall>c \<in> set Input. \<not> IsDigit c) \<longrightarrow> ExtractNumber Input = 0"
    by (simp add: ExtractNumber_def ExtractNumber_loop_no_digit)
  have ex1: "ExtractNumber ''abc 2pm and 30 min'' = 2"
    by (simp add: ExtractNumber_def IsDigit_def Atoi_def DigitValue_def INT32_MAX_def)
  have ex2: "ExtractNumber ''no digits'' = 0"
    by (simp add: ExtractNumber_def IsDigit_def)
  from general none ex1 ex2 show ?thesis by blast
qed

theorem ExtractNumber_first_run_witness:
  "\<not> (\<exists>c \<in> set ''no digits''. IsDigit c) \<and> ExtractNumber ''no digits'' = 0"
proof -
  have h: "\<forall>c \<in> set ''no digits''. \<not> IsDigit c"
    by (simp add: IsDigit_def)
  with ExtractNumber_first_run [of "''no digits''"] show ?thesis by blast
qed

lemmas text_eval = IsDigit_def IsWhitespace_def ToLowerChar_def ToLower_def TrimStart_def
  TrimEnd_def TrimStartAndEnd_def FStringEq_def Contains_def

lemmas number_eval = ExtractNumber_def Atoi_def DigitValue_def INT32_MAX_def wrap32_def

section \<open>Effects and transitions\<close>

subsection \<open>What the observations see of the effects\<close>

lemma Questions_append [simp]: "Questions (a @ b) = Questions a @ Questions b"
  by (induction a rule: Questions.induct) auto

lemma EventsCreated_append [simp]: "EventsCreated (a @ b) = EventsCreated a @ EventsCreated b"
  by (induction a rule: EventsCreated.induct) auto

lemma Cancellations_append [simp]: "Cancellations (a @ b) = Cancellations a + Cancellations b"
  by (induction a rule: Cancellations.induct) auto

lemma BackendMessages_append [simp]: "BackendMessages (a @ b) = BackendMessages a @ BackendMessages b"
  by (induction a rule: BackendMessages.induct) auto

lemma LogLines_append [simp]: "LogLines (a @ b) = LogLines a @ LogLines b"
  by (induction a rule: LogLines.induct) auto

lemma LogCalendar_seen [simp]:
  "Questions (LogCalendar m b) = []"
  "EventsCreated (LogCalendar m b) = []"
  "Cancellations (LogCalendar m b) = 0"
  "BackendMessages (LogCalendar m b) = []"
  by (simp_all add: LogCalendar_def)

lemma AskCurrentQuestion_seen [simp]:
  "EventsCreated (AskCurrentQuestion w c) = []"
  "Cancellations (AskCurrentQuestion w c) = 0"
  "BackendMessages (AskCurrentQuestion w c) = []"
  by (cases "CurrentState c"; simp add: AskCurrentQuestion_def)+

lemma AskCurrentQuestion_by_state:
  assumes "CurrentState c = CurrentState c0" and "CurrentState c \<noteq> Confirming"
  shows "Questions (AskCurrentQuestion w c) = Questions (AskCurrentQuestion w0 c0)"
  using assms by (cases "CurrentState c0") (simp_all add: AskCurrentQuestion_def)

lemma AskCurrentQuestion_one_question:
  assumes "CurrentState c \<notin> {Idle, Creating, Complete}"
  shows "length (Questions (AskCurrentQuestion w c)) = 1"
  using assms by (cases "CurrentState c") (simp_all add: AskCurrentQuestion_def)

subsection \<open>The three ways through \<^verbatim>\<open>ProcessUserResponse\<close>\<close>

lemma ProcessUserResponse_Idle:
  assumes "CurrentState c = Idle"
  shows "ProcessUserResponse w c Response =
           Inr (c, LogCalendar ''Received response but not in calendar flow - ignoring'' True)"
  using assms by (simp add: ProcessUserResponse_def)

lemma ProcessUserResponse_rejected:
  assumes "CurrentState c \<noteq> Idle" and "ProcessAnswer w c Response = Inr (False, c1, answered)"
  shows "ProcessUserResponse w c Response =
           Inr (c1, LogCalendar (''Processing response in state ''
                                 @ IntToString (StateIndex (CurrentState c)) @ '': '' @ Response) False
                    @ answered
                    @ LogCalendar ''Invalid answer, asking again'' True @ AskCurrentQuestion w c1)"
  using assms by (simp add: ProcessUserResponse_def)

lemma ProcessUserResponse_accepted:
  assumes "CurrentState c \<noteq> Idle" and "ProcessAnswer w c Response = Inr (True, c1, answered)"
  shows "ProcessUserResponse w c Response =
           Inr (fst (AdvanceToNextState w c1),
                LogCalendar (''Processing response in state ''
                             @ IntToString (StateIndex (CurrentState c)) @ '': '' @ Response) False
                @ answered @ snd (AdvanceToNextState w c1))"
  using assms by (simp add: ProcessUserResponse_def split: prod.splits)

lemma ParseDateTime_effects:
  assumes "ParseDateTime w Input = Inr (t, parse_log)"
  shows "parse_log = [] \<or> (\<exists>m. parse_log = LogCalendar m True)"
  using assms by (auto simp: ParseDateTime_def Let_def split: if_splits sum.splits)

lemma ProcessAnswer_rejected:
  assumes "CurrentState c \<noteq> Confirming" and "ProcessAnswer w c Answer = Inr (False, c1, answered)"
  shows "c1 = c \<and> Questions answered = [] \<and> EventsCreated answered = [] \<and> Cancellations answered = 0
         \<and> BackendMessages answered = []"
proof (cases "CurrentState c")
  case AskingDateTime
  with assms(2) obtain t parse_log where p: "ParseDateTime w Answer = Inr (t, parse_log)"
    and r: "c1 = c" "answered = parse_log"
    by (auto simp: ProcessAnswer_def ProcessDateTime_def Let_def split: sum.splits if_splits)
  from ParseDateTime_effects [OF p] r show ?thesis by auto
qed (use assms in \<open>auto simp: ProcessAnswer_def ProcessEventName_def ProcessDuration_def
      ProcessLocation_def ProcessNotes_def ProcessPriority_def Let_def split: if_splits\<close>)

text \<open>
  Where the processor of the state rejects the answer, in every state other than
  \<^verbatim>\<open>Confirming\<close>, the component is left as it was, state and record, and the questions
  broadcast by \<^verbatim>\<open>ProcessUserResponse\<close> are those that \<^verbatim>\<open>AskCurrentQuestion\<close> broadcast
  when the state was entered (by any earlier component \<open>c0\<close> in the same state, in any
  earlier world \<open>w0\<close>): exactly one question in the six asking states, none in the
  states that ask nothing.
\<close>

lemma rejected_answer_asks_again:
  assumes "CurrentState c \<noteq> Confirming"
    and "ProcessAnswer w c Answer = Inr (False, c1, answered)"
    and "CurrentState c0 = CurrentState c"
  shows "\<exists>out. ProcessUserResponse w c Answer = Inr (c, out)
           \<and> Questions out = Questions (AskCurrentQuestion w0 c0)
           \<and> (CurrentState c \<notin> {Idle, Creating, Complete} \<longrightarrow> length (Questions out) = 1)"
proof (cases "CurrentState c = Idle")
  case True
  with assms(3) have "Questions (AskCurrentQuestion w0 c0) = []"
    by (simp add: AskCurrentQuestion_def)
  with True show ?thesis
    by (simp add: ProcessUserResponse_Idle)
next
  case False
  from ProcessAnswer_rejected [OF assms(1,2)]
  have same: "c1 = c" and quiet: "Questions answered = []"
    by simp_all
  from assms(1,3) have again:
    "Questions (AskCurrentQuestion w c) = Questions (AskCurrentQuestion w0 c0)"
    by (intro AskCurrentQuestion_by_state) simp_all
  have one: "CurrentState c \<notin> {Idle, Creating, Complete} \<longrightarrow>
      length (Questions (AskCurrentQuestion w0 c0)) = 1"
    using AskCurrentQuestion_one_question [of c w] again by simp
  from ProcessUserResponse_rejected [OF False assms(2)] same quiet again one
  show ?thesis by simp
qed

subsection \<open>Cancelling and declining\<close>

lemma CancelFlow_result:
  "CancelFlow c = (\<lparr>CurrentState = Idle, EventData = FCalendarEventData_default\<rparr>,
                   LogCalendar ''Calendar flow cancelled'' False
                   @ [OnFlowCancelled \<lparr>CurrentState = Idle, EventData = FCalendarEventData_default\<rparr>])"
  by (cases c) (simp add: CancelFlow_def Let_def)

lemma ProcessAnswer_declined:
  assumes "CurrentState c = Confirming" and "\<not> IsAffirmative Answer"
  shows "ProcessAnswer w c Answer =
           Inr (False, \<lparr>CurrentState = Idle, EventData = FCalendarEventData_default\<rparr>,
                LogCalendar ''Event creation cancelled by user'' False
                @ LogCalendar ''Calendar flow cancelled'' False
                @ [OnFlowCancelled \<lparr>CurrentState = Idle, EventData = FCalendarEventData_default\<rparr>])"
  using assms by (simp add: ProcessAnswer_def ProcessConfirmation_def CancelFlow_result)

lemma ProcessAnswer_confirmed:
  assumes "CurrentState c = Confirming" and "IsAffirmative Answer"
  shows "ProcessAnswer w c Answer =
           Inr (True, c\<lparr>EventData := (EventData c)\<lparr>bIsValid := True\<rparr>\<rparr>,
                LogCalendar ''Event confirmed by user'' False)"
  using assms by (simp add: ProcessAnswer_def ProcessConfirmation_def)

lemma StartEventCreation_result:
  "\<exists>out. StartEventCreation w c =
           (\<lparr>CurrentState = AskingEventName, EventData = FCalendarEventData_default\<rparr>, out)
         \<and> Questions out = [''What would you like to call this event?'']
         \<and> EventsCreated out = [] \<and> Cancellations out = 0 \<and> BackendMessages out = []"
  by (cases c)
     (simp add: StartEventCreation_def AskCurrentQuestion_def FCalendarEventData_default_def Let_def)

text \<open>
  Claim C5. \<^verbatim>\<open>CancelFlow\<close>, from any state (so from every state other than \<^verbatim>\<open>Idle\<close>),
  leaves the component in \<^verbatim>\<open>Idle\<close> with the default record and broadcasts
  \<^verbatim>\<open>OnFlowCancelled\<close> once. An answer at \<^verbatim>\<open>Confirming\<close> that is not affirmative does the
  same through \<^verbatim>\<open>ProcessUserResponse\<close>, asking nothing; and \<^verbatim>\<open>StartEventCreation\<close> on
  the component so left gives the default record in state \<^verbatim>\<open>AskingEventName\<close> and
  broadcasts the first question.
\<close>

theorem cancel_and_decline:
  "CurrentState (fst (CancelFlow c)) = Idle
   \<and> EventData (fst (CancelFlow c)) = FCalendarEventData_default
   \<and> Cancellations (snd (CancelFlow c)) = 1
   \<and> (CurrentState d = Confirming \<and> \<not> IsAffirmative Answer \<longrightarrow>
        (\<exists>d1 out. ProcessUserResponse w d Answer = Inr (d1, out)
           \<and> CurrentState d1 = Idle \<and> EventData d1 = FCalendarEventData_default
           \<and> Cancellations out = 1 \<and> Questions out = [] \<and> EventsCreated out = []
           \<and> (\<exists>d2 again. StartEventCreation w1 d1 = (d2, again)
                 \<and> CurrentState d2 = AskingEventName
                 \<and> EventData d2 = FCalendarEventData_default
                 \<and> Questions again = [''What would you like to call this event?''])))"
proof -
  have cancel: "CurrentState (fst (CancelFlow c)) = Idle
      \<and> EventData (fst (CancelFlow c)) = FCalendarEventData_default
      \<and> Cancellations (snd (CancelFlow c)) = 1"
    by (simp add: CancelFlow_result)
  have decline: "\<exists>d1 out. ProcessUserResponse w d Answer = Inr (d1, out)
           \<and> CurrentState d1 = Idle \<and> EventData d1 = FCalendarEventData_default
           \<and> Cancellations out = 1 \<and> Questions out = [] \<and> EventsCreated out = []
           \<and> (\<exists>d2 again. StartEventCreation w1 d1 = (d2, again)
                 \<and> CurrentState d2 = AskingEventName
                 \<and> EventData d2 = FCalendarEventData_default
                 \<and> Questions again = [''What would you like to call this event?''])"
    if conf: "CurrentState d = Confirming" and no: "\<not> IsAffirmative Answer"
  proof -
    let ?d1 = "\<lparr>CurrentState = Idle, EventData = FCalendarEventData_default\<rparr>"
    from conf have busy: "CurrentState d \<noteq> Idle" by simp
    have idle: "AskCurrentQuestion w ?d1 = []"
      by (simp add: AskCurrentQuestion_def)
    from StartEventCreation_result [of w1 ?d1]
    obtain again where "StartEventCreation w1 ?d1 =
        (\<lparr>CurrentState = AskingEventName, EventData = FCalendarEventData_default\<rparr>, again)"
      and "Questions again = [''What would you like to call this event?'']"
      by blast
    with ProcessUserResponse_rejected [OF busy ProcessAnswer_declined [OF conf no]] idle
    show ?thesis by simp
  qed
  from cancel decline show ?thesis by blast
qed

theorem cancel_and_decline_witness:
  "CurrentState (UCalendarDialogueComponent_new\<lparr>CurrentState := Confirming\<rparr>) = Confirming
   \<and> \<not> IsAffirmative ''no''
   \<and> FinalComponent (ProcessUserResponse ExampleWorld
        (UCalendarDialogueComponent_new\<lparr>CurrentState := Confirming\<rparr>) ''no'')
      = Some \<lparr>CurrentState = Idle, EventData = FCalendarEventData_default\<rparr>
   \<and> Cancellations (AllEffects (ProcessUserResponse ExampleWorld
        (UCalendarDialogueComponent_new\<lparr>CurrentState := Confirming\<rparr>) ''no'')) = 1"
proof -
  let ?d = "UCalendarDialogueComponent_new\<lparr>CurrentState := Confirming\<rparr>"
  have h1: "CurrentState ?d = Confirming" by simp
  have h2: "\<not> IsAffirmative ''no''"
    by (simp add: IsAffirmative_def text_eval)
  from cancel_and_decline [of _ ?d "''no''" ExampleWorld] h1 h2
  obtain d1 out where "ProcessUserResponse ExampleWorld ?d ''no'' = Inr (d1, out)"
    and "CurrentState d1 = Idle" and "EventData d1 = FCalendarEventData_default"
    and "Cancellations out = 1"
    by blast
  with h1 h2 show ?thesis by (cases d1) simp
qed

subsection \<open>The hand-off\<close>

lemma AdvanceToNextState_Confirming:
  assumes "CurrentState c = Confirming"
  shows "AdvanceToNextState w c =
           (c\<lparr>CurrentState := Idle\<rparr>, snd (SendEventToBackend w (c\<lparr>CurrentState := Creating\<rparr>)))"
  using assms
  by (simp add: AdvanceToNextState_def SendEventToBackend_def Let_def
      split: list.splits option.splits)

lemma SendEventToBackend_no_manager:
  assumes "FoundActors w = []"
  shows "SendEventToBackend w c =
           (c, LogCalendar ''Sending event to backend...'' False
               @ LogCalendar ''ERROR: Could not find AICompanionManager!'' True)"
  using assms by (simp add: SendEventToBackend_def)

lemma SendEventToBackend_manager:
  assumes "FoundActors w = Some Manager # others"
  shows "SendEventToBackend w c =
           (c, LogCalendar ''Sending event to backend...'' False
               @ [SendMessageToBackend c Manager (BuildJSON w (EventData c))]
               @ LogCalendar ''Event sent to backend successfully'' False
               @ [OnEventCreated c (EventData c)])"
  using assms by (simp add: SendEventToBackend_def)

lemma ProcessUserResponse_confirmed:
  assumes "CurrentState c = Confirming" and "IsAffirmative Answer"
  shows "ProcessUserResponse w c Answer =
           Inr (c\<lparr>CurrentState := Idle, EventData := (EventData c)\<lparr>bIsValid := True\<rparr>\<rparr>,
                LogCalendar (''Processing response in state ''
                             @ IntToString (StateIndex (CurrentState c)) @ '': '' @ Answer) False
                @ LogCalendar ''Event confirmed by user'' False
                @ snd (SendEventToBackend w
                    (c\<lparr>EventData := (EventData c)\<lparr>bIsValid := True\<rparr>, CurrentState := Creating\<rparr>)))"
proof -
  from assms(1) have busy: "CurrentState c \<noteq> Idle" by simp
  let ?c1 = "c\<lparr>EventData := (EventData c)\<lparr>bIsValid := True\<rparr>\<rparr>"
  from assms(1) have "CurrentState ?c1 = Confirming" by simp
  from AdvanceToNextState_Confirming [OF this, of w]
    ProcessUserResponse_accepted [OF busy ProcessAnswer_confirmed [OF assms], of w]
  show ?thesis by simp
qed

text \<open>
  Claim C9. When the answer at \<^verbatim>\<open>Confirming\<close> is affirmative and
  \<^verbatim>\<open>GetAllActorsOfClass\<close> finds no manager, \<^verbatim>\<open>ProcessUserResponse\<close> writes the line
  "ERROR: Could not find AICompanionManager!" to the log (with warning verbosity), gives
  nothing to any manager and broadcasts no \<^verbatim>\<open>OnEventCreated\<close>; the record is kept, with
  \<^verbatim>\<open>bIsValid\<close> set, so \<^verbatim>\<open>GetEventData\<close> still returns it to a caller who wants to hand
  it off again. The component itself is back in \<^verbatim>\<open>Idle\<close>.
\<close>

theorem missing_manager_keeps_record:
  assumes "CurrentState c = Confirming" and "IsAffirmative Answer" and "FoundActors w = []"
  shows "\<exists>c1 out. ProcessUserResponse w c Answer = Inr (c1, out)
           \<and> (Warning, ''[CalendarDialogue] ERROR: Could not find AICompanionManager!'') \<in> set (LogLines out)
           \<and> GetEventData c1 = (EventData c)\<lparr>bIsValid := True\<rparr>
           \<and> GetCurrentState c1 = Idle
           \<and> BackendMessages out = [] \<and> EventsCreated out = [] \<and> Cancellations out = 0"
  using ProcessUserResponse_confirmed [OF assms(1,2), of w] assms(3)
  by (simp add: SendEventToBackend_no_manager GetEventData_def GetCurrentState_def LogCalendar_def)

theorem missing_manager_keeps_record_witness:
  "CurrentState (UCalendarDialogueComponent_new\<lparr>CurrentState := Confirming\<rparr>) = Confirming
   \<and> IsAffirmative ''yes''
   \<and> FoundActors (ExampleWorld\<lparr>FoundActors := []\<rparr>) = []
   \<and> map_option GetEventData (FinalComponent (ProcessUserResponse (ExampleWorld\<lparr>FoundActors := []\<rparr>)
        (UCalendarDialogueComponent_new\<lparr>CurrentState := Confirming\<rparr>) ''yes''))
      = Some (FCalendarEventData_default\<lparr>bIsValid := True\<rparr>)
   \<and> EventsCreated (AllEffects (ProcessUserResponse (ExampleWorld\<lparr>FoundActors := []\<rparr>)
        (UCalendarDialogueComponent_new\<lparr>CurrentState := Confirming\<rparr>) ''yes'')) = []"
proof -
  let ?c = "UCalendarDialogueComponent_new\<lparr>CurrentState := Confirming\<rparr>"
  let ?w = "ExampleWorld\<lparr>FoundActors := []\<rparr>"
  have h1: "CurrentState ?c = Confirming" by simp
  have h2: "IsAffirmative ''yes''"
    by (simp add: IsAffirmative_def text_eval)
  have h3: "FoundActors ?w = []" by simp
  from missing_manager_keeps_record [OF h1 h2 h3]
  obtain c1 out where "ProcessUserResponse ?w ?c ''yes'' = Inr (c1, out)"
    and "GetEventData c1 = (EventData ?c)\<lparr>bIsValid := True\<rparr>" and "EventsCreated out = []"
    by blast
  with h1 h2 h3 show ?thesis
    by (simp add: UCalendarDialogueComponent_new_def)
qed

subsection \<open>The states a caller can see\<close>

lemma AdvanceToNextState_visible:
  "CurrentState (fst (AdvanceToNextState w c)) \<notin> {Creating, Complete}"
proof (cases "CurrentState c")
  case Confirming
  then show ?thesis by (simp add: AdvanceToNextState_Confirming)
qed (simp_all add: AdvanceToNextState_def)

lemma ProcessAnswer_state:
  assumes "ProcessAnswer w c Answer = Inr (b, c1, answered)"
  shows "CurrentState c1 = CurrentState c \<or> CurrentState c1 = Idle"
  using assms
  by (cases "CurrentState c")
     (auto simp: ProcessAnswer_def ProcessEventName_def ProcessDateTime_def ProcessDuration_def
        ProcessLocation_def ProcessNotes_def ProcessPriority_def ProcessConfirmation_def
        CancelFlow_result Let_def split: if_splits sum.splits)

lemma ProcessUserResponse_visible:
  assumes "ProcessUserResponse w c Response = Inr (c1, out)"
    and "CurrentState c \<notin> {Creating, Complete}"
  shows "CurrentState c1 \<notin> {Creating, Complete}"
proof (cases "CurrentState c = Idle")
  case True
  with assms show ?thesis by (simp add: ProcessUserResponse_Idle)
next
  case False
  obtain b c' answered where pa: "ProcessAnswer w c Response = Inr (b, c', answered)"
  proof (cases "ProcessAnswer w c Response")
    case (Inl e)
    with assms(1) False have False by (simp add: ProcessUserResponse_def)
    then show ?thesis ..
  next
    case (Inr r)
    with that show ?thesis by (cases r) auto
  qed
  show ?thesis
  proof (cases b)
    case True
    with ProcessUserResponse_accepted [OF False, of w Response c' answered] pa assms(1)
    have "c1 = fst (AdvanceToNextState w c')" by simp
    then show ?thesis using AdvanceToNextState_visible [of w c'] by simp
  next
    case no: False
    with ProcessUserResponse_rejected [OF False, of w Response c' answered] pa assms(1)
    have "c1 = c'" by simp
    with ProcessAnswer_state [OF pa] assms(2) show ?thesis by auto
  qed
qed

lemma Invoke_visible:
  assumes "Invoke w k c = Inr (c1, out)" and "CurrentState c \<notin> {Creating, Complete}"
  shows "CurrentState c1 \<notin> {Creating, Complete}"
proof (cases k)
  case Call_StartEventCreation
  with assms(1) StartEventCreation_result [of w c] show ?thesis by auto
next
  case (Call_ProcessUserResponse Response)
  with assms ProcessUserResponse_visible show ?thesis by simp
next
  case Call_CancelFlow
  with assms(1) show ?thesis by (auto simp: CancelFlow_result)
qed

lemma Run_visible:
  assumes "Run calls c = Inr (c1, out)" and "CurrentState c \<notin> {Creating, Complete}"
  shows "CurrentState c1 \<notin> {Creating, Complete}"
  using assms
proof (induction calls arbitrary: c out)
  case Nil
  then show ?case by simp
next
  case (Cons wk calls)
  obtain w k where wk: "wk = (w, k)" by (cases wk)
  with Cons.prems(1) obtain c' first later where
    step: "Invoke w k c = Inr (c', first)" and rest: "Run calls c' = Inr (c1, later)"
    by (auto split: sum.splits)
  from Invoke_visible [OF step Cons.prems(2)] have "CurrentState c' \<notin> {Creating, Complete}" .
  with Cons.IH [OF rest] show ?case by blast
qed

subsection \<open>The answers of the happy path, one state at a time\<close>

lemma DayOf_tomorrow: "DayOf (t + FromDays 1) = DayOf t + 1"
  by (simp add: DayOf_def FromDays_def TicksPerDay_def)

lemma afternoon_not_MinValue: "(d + 1) * TicksPerDay + 14 * TicksPerHour \<noteq> MinValue"
proof
  assume "(d + 1) * TicksPerDay + 14 * TicksPerHour = MinValue"
  then have "36000000000 * (24 * (d + 1) + 14) = 0"
    by (simp add: TicksPerDay_def TicksPerHour_def MinValue_def algebra_simps)
  then have "24 * (d + 1) + 14 = 0" by simp
  then show False by presburger
qed

lemma ParseDateTime_hour_2pm:
  "ParseDateTime_hour ''tomorrow at 2pm'' t = Inr (DayOf t * TicksPerDay + 14 * TicksPerHour)"
  by (simp add: ParseDateTime_hour_def FDateTime_YMDH_def text_eval number_eval)

lemma ParseDateTime_tomorrow_2pm:
  "ParseDateTime w ''tomorrow at 2pm'' =
     Inr ((DayOf (Now w) + 1) * TicksPerDay + 14 * TicksPerHour, [])"
  by (simp add: ParseDateTime_def ParseDateTime_hour_2pm DayOf_tomorrow text_eval)

lemma ParseDuration_1_hour: "ParseDuration ''1 hour'' = 60"
  by (simp add: ParseDuration_def text_eval number_eval)

lemma IsAffirmative_yes: "IsAffirmative ''yes''"
  by (simp add: IsAffirmative_def text_eval)

lemma answer_Dentist:
  assumes "CurrentState c = AskingEventName"
  shows "\<exists>out. ProcessUserResponse w c ''Dentist'' =
           Inr (c\<lparr>CurrentState := AskingDateTime,
                  EventData := (EventData c)\<lparr>EventName := ''Dentist''\<rparr>\<rparr>, out)
         \<and> EventsCreated out = [] \<and> BackendMessages out = []"
  using assms
  by (simp add: ProcessUserResponse_def ProcessAnswer_def ProcessEventName_def
      AdvanceToNextState_def text_eval)

lemma answer_tomorrow_2pm:
  assumes "CurrentState c = AskingDateTime"
  shows "\<exists>out. ProcessUserResponse w c ''tomorrow at 2pm'' =
           Inr (c\<lparr>CurrentState := AskingDuration,
                  EventData := (EventData c)
                    \<lparr>DateTime := (DayOf (Now w) + 1) * TicksPerDay + 14 * TicksPerHour\<rparr>\<rparr>, out)
         \<and> EventsCreated out = [] \<and> BackendMessages out = []"
  using assms
  by (simp add: ProcessUserResponse_def ProcessAnswer_def ProcessDateTime_def
      ParseDateTime_tomorrow_2pm afternoon_not_MinValue AdvanceToNextState_def)

lemma answer_1_hour:
  assumes "CurrentState c = AskingDuration"
  shows "\<exists>out. ProcessUserResponse w c ''1 hour'' =
           Inr (c\<lparr>CurrentState := AskingLocation,
                  EventData := (EventData c)\<lparr>DurationMinutes := 60\<rparr>\<rparr>, out)
         \<and> EventsCreated out = [] \<and> BackendMessages out = []"
  using assms
  by (simp add: ProcessUserResponse_def ProcessAnswer_def ProcessDuration_def
      ParseDuration_1_hour AdvanceToNextState_def)

lemma answer_none_location:
  assumes "CurrentState c = AskingLocation"
  shows "\<exists>out. ProcessUserResponse w c ''none'' =
           Inr (c\<lparr>CurrentState := AskingNotes,
                  EventData := (EventData c)\<lparr>Location := []\<rparr>\<rparr>, out)
         \<and> EventsCreated out = [] \<and> BackendMessages out = []"
  using assms
  by (simp add: ProcessUserResponse_def ProcessAnswer_def ProcessLocation_def
      AdvanceToNextState_def text_eval)

lemma answer_none_notes:
  assumes "CurrentState c = AskingNotes"
  shows "\<exists>out. ProcessUserResponse w c ''none'' =
           Inr (c\<lparr>CurrentState := AskingPriority,
                  EventData := (EventData c)\<lparr>Notes := []\<rparr>\<rparr>, out)
         \<and> EventsCreated out = [] \<and> BackendMessages out = []"
  using assms
  by (simp add: ProcessUserResponse_def ProcessAnswer_def ProcessNotes_def
      AdvanceToNextState_def text_eval)

lemma answer_8:
  assumes "CurrentState c = AskingPriority"
  shows "\<exists>out. ProcessUserResponse w c ''8'' =
           Inr (c\<lparr>CurrentState := Confirming,
                  EventData := (EventData c)\<lparr>Priority := 8\<rparr>\<rparr>, out)
         \<and> EventsCreated out = [] \<and> BackendMessages out = []"
  using assms
  by (simp add: ProcessUserResponse_def ProcessAnswer_def ProcessPriority_def
      AdvanceToNextState_def IsDigit_def number_eval)

lemma answer_yes:
  assumes "CurrentState c = Confirming" and "FoundActors w = Some Manager # others"
  shows "\<exists>out. ProcessUserResponse w c ''yes'' =
           Inr (c\<lparr>CurrentState := Idle, EventData := (EventData c)\<lparr>bIsValid := True\<rparr>\<rparr>, out)
         \<and> EventsCreated out = [(EventData c)\<lparr>bIsValid := True\<rparr>]
         \<and> BackendMessages out = [(Manager, BuildJSON w ((EventData c)\<lparr>bIsValid := True\<rparr>))]"
  using ProcessUserResponse_confirmed [OF assms(1) IsAffirmative_yes, of w]
  by (simp add: SendEventToBackend_manager [OF assms(2)])

lemma happy_path_run:
  assumes "FoundActors (w 7) = Some Manager # others"
  shows "\<exists>out. Run (HappyPath w) c0 =
           Inr (\<lparr>CurrentState = Idle,
                 EventData = \<lparr>EventName = ''Dentist'',
                   DateTime = (DayOf (Now (w 2)) + 1) * TicksPerDay + 14 * TicksPerHour,
                   DurationMinutes = 60, Location = [], Notes = [], Priority = 8,
                   bIsValid = True\<rparr>\<rparr>, out)
         \<and> EventsCreated out =
             [\<lparr>EventName = ''Dentist'',
               DateTime = (DayOf (Now (w 2)) + 1) * TicksPerDay + 14 * TicksPerHour,
               DurationMinutes = 60, Location = [], Notes = [], Priority = 8, bIsValid = True\<rparr>]
         \<and> BackendMessages out =
             [(Manager, BuildJSON (w 7)
                \<lparr>EventName = ''Dentist'',
                 DateTime = (DayOf (Now (w 2)) + 1) * TicksPerDay + 14 * TicksPerHour,
                 DurationMinutes = 60, Location = [], Notes = [], Priority = 8, bIsValid = True\<rparr>)]"
proof -
  let ?d0 = "FCalendarEventData_default"
  let ?d1 = "?d0\<lparr>EventName := ''Dentist''\<rparr>"
  let ?d2 = "?d1\<lparr>DateTime := (DayOf (Now (w 2)) + 1) * TicksPerDay + 14 * TicksPerHour\<rparr>"
  let ?d3 = "?d2\<lparr>DurationMinutes := 60\<rparr>"
  let ?d4 = "?d3\<lparr>Location := []\<rparr>"
  let ?d5 = "?d4\<lparr>Notes := []\<rparr>"
  let ?d6 = "?d5\<lparr>Priority := 8\<rparr>"
  let ?d7 = "?d6\<lparr>bIsValid := True\<rparr>"
  from StartEventCreation_result [of "w 0" c0] obtain o0 where
    s0: "StartEventCreation (w 0) c0 = (\<lparr>CurrentState = AskingEventName, EventData = ?d0\<rparr>, o0)"
    and q0: "EventsCreated o0 = []" "BackendMessages o0 = []"
    by blast
  from answer_Dentist [of "\<lparr>CurrentState = AskingEventName, EventData = ?d0\<rparr>" "w 1"] obtain o1 where
    s1: "ProcessUserResponse (w 1) \<lparr>CurrentState = AskingEventName, EventData = ?d0\<rparr> ''Dentist''
           = Inr (\<lparr>CurrentState = AskingDateTime, EventData = ?d1\<rparr>, o1)"
    and q1: "EventsCreated o1 = []" "BackendMessages o1 = []"
    by auto
  from answer_tomorrow_2pm [of "\<lparr>CurrentState = AskingDateTime, EventData = ?d1\<rparr>" "w 2"] obtain o2 where
    s2: "ProcessUserResponse (w 2) \<lparr>CurrentState = AskingDateTime, EventData = ?d1\<rparr> ''tomorrow at 2pm''
           = Inr (\<lparr>CurrentState = AskingDuration, EventData = ?d2\<rparr>, o2)"
    and q2: "EventsCreated o2 = []" "BackendMessages o2 = []"
    by auto
  from answer_1_hour [of "\<lparr>CurrentState = AskingDuration, EventData = ?d2\<rparr>" "w 3"] obtain o3 where
    s3: "ProcessUserResponse (w 3) \<lparr>CurrentState = AskingDuration, EventData = ?d2\<rparr> ''1 hour''
           = Inr (\<lparr>CurrentState = AskingLocation, EventData = ?d3\<rparr>, o3)"
    and q3: "EventsCreated o3 = []" "BackendMessages o3 = []"
    by auto
  from answer_none_location [of "\<lparr>CurrentState = AskingLocation, EventData = ?d3\<rparr>" "w 4"] obtain o4 where
    s4: "ProcessUserResponse (w 4) \<lparr>CurrentState = AskingLocation, EventData = ?d3\<rparr> ''none''
           = Inr (\<lparr>CurrentState = AskingNotes, EventData = ?d4\<rparr>, o4)"
    and q4: "EventsCreated o4 = []" "BackendMessages o4 = []"
    by auto
  from answer_none_notes [of "\<lparr>CurrentState = AskingNotes, EventData = ?d4\<rparr>" "w 5"] obtain o5 where
    s5: "ProcessUserResponse (w 5) \<lparr>CurrentState = AskingNotes, EventData = ?d4\<rparr> ''none''
           = Inr (\<lparr>CurrentState = AskingPriority, EventData = ?d5\<rparr>, o5)"
    and q5: "EventsCreated o5 = []" "BackendMessages o5 = []"
    by auto
  from answer_8 [of "\<lparr>CurrentState = AskingPriority, EventData = ?d5\<rparr>" "w 6"] obtain o6 where
    s6: "ProcessUserResponse (w 6) \<lparr>CurrentState = AskingPriority, EventData = ?d5\<rparr> ''8''
           = Inr (\<lparr>CurrentState = Confirming, EventData = ?d6\<rparr>, o6)"
    and q6: "EventsCreated o6 = []" "BackendMessages o6 = []"
    by auto
  from answer_yes [of "\<lparr>CurrentState = Confirming, EventData = ?d6\<rparr>" "w 7", OF _ assms] obtain o7 where
    s7: "ProcessUserResponse (w 7) \<lparr>CurrentState = Confirming, EventData = ?d6\<rparr> ''yes''
           = Inr (\<lparr>CurrentState = Idle, EventData = ?d7\<rparr>, o7)"
    and q7: "EventsCreated o7 = [?d7]" "BackendMessages o7 = [(Manager, BuildJSON (w 7) ?d7)]"
    by auto
  have handed: "?d7 = \<lparr>EventName = ''Dentist'',
                   DateTime = (DayOf (Now (w 2)) + 1) * TicksPerDay + 14 * TicksPerHour,
                   DurationMinutes = 60, Location = [], Notes = [], Priority = 8,
                   bIsValid = True\<rparr>"
    by (simp add: FCalendarEventData_default_def)
  have "Run (HappyPath w) c0 =
      Inr (\<lparr>CurrentState = Idle, EventData = ?d7\<rparr>, o0 @ o1 @ o2 @ o3 @ o4 @ o5 @ o6 @ o7)"
    by (simp add: HappyPath_def s0 s1 s2 s3 s4 s5 s6 s7 del: One_nat_def)
  moreover have "EventsCreated (o0 @ o1 @ o2 @ o3 @ o4 @ o5 @ o6 @ o7) = [?d7]"
    by (simp add: q0 q1 q2 q3 q4 q5 q6 q7)
  moreover have "BackendMessages (o0 @ o1 @ o2 @ o3 @ o4 @ o5 @ o6 @ o7) = [(Manager, BuildJSON (w 7) ?d7)]"
    by (simp add: q0 q1 q2 q3 q4 q5 q6 q7)
  ultimately show ?thesis
    unfolding handed by blast
qed

lemma DayOf_afternoon: "DayOf (d * TicksPerDay + 14 * TicksPerHour) = d"
  by (simp add: DayOf_def TicksPerDay_def TicksPerHour_def)

text \<open>
  Claim C1, as amended. The start and the seven answers, with a manager actor in the level
  when "yes" is processed, end in \<^verbatim>\<open>Idle\<close>; one text is given to the manager and
  \<^verbatim>\<open>OnEventCreated\<close> is broadcast once, with the name "Dentist", 60 minutes, no location,
  no notes and priority 8. The date of the record is 14:00 on the day after the day on
  which the answer "tomorrow at 2pm" is processed: the clock is read then, not at the
  start. It is the day after the start when both fall on the same day.
\<close>

theorem happy_path_hand_off:
  assumes "FoundActors (w 7) = Some Manager # others"
  shows "\<exists>c out e. Run (HappyPath w) UCalendarDialogueComponent_new = Inr (c, out)
           \<and> GetCurrentState c = Idle
           \<and> EventsCreated out = [e]
           \<and> BackendMessages out = [(Manager, BuildJSON (w 7) e)]
           \<and> EventName e = ''Dentist'' \<and> DurationMinutes e = 60 \<and> Location e = []
           \<and> Notes e = [] \<and> Priority e = 8
           \<and> DateTime e = (DayOf (Now (w 2)) + 1) * TicksPerDay + 14 * TicksPerHour
           \<and> DayOf (DateTime e) = DayOf (Now (w 2)) + 1
           \<and> (DayOf (Now (w 2)) = DayOf (Now (w 0)) \<longrightarrow> DayOf (DateTime e) = DayOf (Now (w 0)) + 1)"
proof -
  let ?e = "\<lparr>EventName = ''Dentist'',
             DateTime = (DayOf (Now (w 2)) + 1) * TicksPerDay + 14 * TicksPerHour,
             DurationMinutes = 60, Location = [], Notes = [], Priority = 8, bIsValid = True\<rparr>"
  from happy_path_run [where w = w and ?c0.0 = UCalendarDialogueComponent_new, OF assms] obtain out where
    run: "Run (HappyPath w) UCalendarDialogueComponent_new
            = Inr (\<lparr>CurrentState = Idle, EventData = ?e\<rparr>, out)"
    and seen: "EventsCreated out = [?e]" "BackendMessages out = [(Manager, BuildJSON (w 7) ?e)]"
    by blast
  have day: "DayOf (DateTime ?e) = DayOf (Now (w 2)) + 1"
    by (simp add: DayOf_afternoon)
  have "GetCurrentState \<lparr>CurrentState = Idle, EventData = ?e\<rparr> = Idle"
    by (simp add: GetCurrentState_def)
  with run seen day show ?thesis
    by (intro exI [of _ "\<lparr>CurrentState = Idle, EventData = ?e\<rparr>"] exI [of _ out] exI [of _ ?e])
       (simp add: DayOf_afternoon)
qed

theorem happy_path_hand_off_witness:
  "FoundActors (SameEvening 7) = [Some 0]
   \<and> map_option GetCurrentState
        (FinalComponent (Run (HappyPath SameEvening) UCalendarDialogueComponent_new)) = Some Idle
   \<and> EventsCreated (AllEffects (Run (HappyPath SameEvening) UCalendarDialogueComponent_new))
      = [\<lparr>EventName = ''Dentist'', DateTime = 638000568000000000, DurationMinutes = 60,
          Location = [], Notes = [], Priority = 8, bIsValid = True\<rparr>]
   \<and> DayOf (Now (SameEvening 2)) = DayOf (Now (SameEvening 0))
   \<and> DayOf 638000568000000000 = DayOf (Now (SameEvening 0)) + 1"
proof -
  have h: "FoundActors (SameEvening 7) = Some 0 # []"
    by (simp add: SameEvening_def ExampleWorld_def)
  have same: "DayOf (Now (SameEvening 2)) = DayOf (Now (SameEvening 0))"
    by (simp add: SameEvening_def)
  have next_day: "DayOf 638000568000000000 = DayOf (Now (SameEvening 0)) + 1"
    by (simp add: SameEvening_def ExampleWorld_def DayOf_def TicksPerDay_def)
  from happy_path_hand_off [where w = SameEvening, OF h] obtain c out e where
    "Run (HappyPath SameEvening) UCalendarDialogueComponent_new = Inr (c, out)"
    and "GetCurrentState c = Idle" and "EventsCreated out = [e]"
    and "EventName e = ''Dentist''" "DurationMinutes e = 60" "Location e = []"
    "Notes e = []" "Priority e = 8"
    "DateTime e = (DayOf (Now (SameEvening 2)) + 1) * TicksPerDay + 14 * TicksPerHour"
    by blast
  moreover have "(DayOf (Now (SameEvening 2)) + 1) * TicksPerDay + 14 * TicksPerHour
      = 638000568000000000"
    by (simp add: SameEvening_def ExampleWorld_def DayOf_def TicksPerDay_def TicksPerHour_def)
  moreover have "bIsValid e"
  proof -
    from happy_path_run [where w = SameEvening and ?c0.0 = UCalendarDialogueComponent_new, OF h]
      \<open>Run (HappyPath SameEvening) UCalendarDialogueComponent_new = Inr (c, out)\<close>
      \<open>EventsCreated out = [e]\<close>
    show ?thesis by auto
  qed
  ultimately show ?thesis using h same next_day by (cases e) simp
qed

text \<open>
  The claim as it stands fails when midnight passes during the conversation: started ten
  minutes before midnight, with "tomorrow at 2pm" answered ten minutes after it, the
  record handed off is dated two days after the day of the start.
\<close>

theorem happy_path_over_midnight:
  "map (DayOf \<circ> DateTime)
     (EventsCreated (AllEffects (Run (HappyPath OverMidnight) UCalendarDialogueComponent_new)))
     = [DayOf (Now (OverMidnight 0)) + 2]
   \<and> map DateTime
     (EventsCreated (AllEffects (Run (HappyPath OverMidnight) UCalendarDialogueComponent_new)))
     = [638001432000000000]
   \<and> DayOf (Now (OverMidnight 0)) = 738425
   \<and> DayOf 638001432000000000 = 738427"
proof -
  have h: "FoundActors (OverMidnight 7) = Some 0 # []"
    by (simp add: OverMidnight_def ExampleWorld_def)
  have d0: "DayOf (Now (OverMidnight 0)) = 738425"
    by (simp add: OverMidnight_def ExampleWorld_def DayOf_def TicksPerDay_def)
  have d2: "DayOf (Now (OverMidnight 2)) = 738426"
    by (simp add: OverMidnight_def ExampleWorld_def DayOf_def TicksPerDay_def)
  have t: "(738426 + 1) * TicksPerDay + 14 * TicksPerHour = 638001432000000000"
    by (simp add: TicksPerDay_def TicksPerHour_def)
  have d: "DayOf 638001432000000000 = 738427"
    by (simp add: DayOf_def TicksPerDay_def)
  from happy_path_run [where w = OverMidnight and ?c0.0 = UCalendarDialogueComponent_new, OF h] d0 d2 t d
  show ?thesis by auto
qed

subsection \<open>When the record is reset\<close>




subsection \<open>The event name\<close>

text \<open>
  Claim C6 at two blanks and at a blank before one letter. \<^verbatim>\<open>ProcessEventName\<close> compares
  the length of the answer as it was given, and trims only what it stores: both answers
  have length 2, both are accepted, and the names stored are the empty text and a text of
  one character. Through \<^verbatim>\<open>ProcessUserResponse\<close> the component moves on to
  \<^verbatim>\<open>AskingDateTime\<close>.
\<close>

theorem short_name_accepted:
  "TrimStartAndEnd ''  '' = [] \<and> TrimStartAndEnd '' a'' = ''a''
   \<and> fst (ProcessEventName c ''  '')
   \<and> EventName (EventData (fst (snd (ProcessEventName c ''  '')))) = []
   \<and> fst (ProcessEventName c '' a'')
   \<and> EventName (EventData (fst (snd (ProcessEventName c '' a'')))) = ''a''
   \<and> map_option GetCurrentState (FinalComponent (Run
        [(ExampleWorld, Call_StartEventCreation), (ExampleWorld, Call_ProcessUserResponse ''  '')]
        UCalendarDialogueComponent_new)) = Some AskingDateTime
   \<and> map_option (EventName \<circ> GetEventData) (FinalComponent (Run
        [(ExampleWorld, Call_StartEventCreation), (ExampleWorld, Call_ProcessUserResponse ''  '')]
        UCalendarDialogueComponent_new)) = Some []"
proof -
  have trims: "TrimStartAndEnd ''  '' = []" "TrimStartAndEnd '' a'' = ''a''"
    by (simp_all add: text_eval)
  have blank: "ProcessEventName c ''  '' =
      (True, c\<lparr>EventData := (EventData c)\<lparr>EventName := []\<rparr>\<rparr>,
       LogCalendar ''Event name set: '' False)" for c
    by (simp add: ProcessEventName_def trims)
  have letter: "ProcessEventName c '' a'' =
      (True, c\<lparr>EventData := (EventData c)\<lparr>EventName := ''a''\<rparr>\<rparr>,
       LogCalendar ''Event name set: a'' False)"
    by (simp add: ProcessEventName_def trims)
  let ?c1 = "\<lparr>CurrentState = AskingEventName, EventData = FCalendarEventData_default\<rparr>"
  from StartEventCreation_result [of ExampleWorld UCalendarDialogueComponent_new]
  obtain o0 where s0: "StartEventCreation ExampleWorld UCalendarDialogueComponent_new = (?c1, o0)"
    by blast
  have busy: "CurrentState ?c1 \<noteq> Idle" by simp
  have pa: "ProcessAnswer ExampleWorld ?c1 ''  '' =
      Inr (True, ?c1\<lparr>EventData := (EventData ?c1)\<lparr>EventName := []\<rparr>\<rparr>,
           LogCalendar ''Event name set: '' False)"
    by (simp add: ProcessAnswer_def blank)
  have adv: "fst (AdvanceToNextState ExampleWorld
      (?c1\<lparr>EventData := (EventData ?c1)\<lparr>EventName := []\<rparr>\<rparr>))
      = \<lparr>CurrentState = AskingDateTime, EventData = FCalendarEventData_default\<lparr>EventName := []\<rparr>\<rparr>"
    by (simp add: AdvanceToNextState_def)
  from ProcessUserResponse_accepted [OF busy pa] adv
  have "FinalComponent (ProcessUserResponse ExampleWorld ?c1 ''  '')
      = Some \<lparr>CurrentState = AskingDateTime, EventData = FCalendarEventData_default\<lparr>EventName := []\<rparr>\<rparr>"
    by simp
  then have run: "FinalComponent (Run
        [(ExampleWorld, Call_StartEventCreation), (ExampleWorld, Call_ProcessUserResponse ''  '')]
        UCalendarDialogueComponent_new)
      = Some \<lparr>CurrentState = AskingDateTime, EventData = FCalendarEventData_default\<lparr>EventName := []\<rparr>\<rparr>"
    by (cases "ProcessUserResponse ExampleWorld ?c1 ''  ''") (auto simp: s0)
  from trims blank [of c] letter run show ?thesis
    by (simp add: GetCurrentState_def GetEventData_def)
qed

subsection \<open>The text given to the manager\<close>

text \<open>
  Claim C3 at a name with a quotation mark in it, and at two records that differ in
  location and notes. \<^verbatim>\<open>SendEventToBackend\<close> puts the three texts between quotation
  marks as they are: the mark inside the name closes the value early, and the two
  different records give one and the same text.
\<close>

theorem payload_not_escaped:
  \<open>BuildJSON ExampleWorld (FCalendarEventData_default\<lparr>EventName := ''a"b''\<rparr>)
     = ''{"type":"create_calendar_event","eventName":"a"b","dateTime":"0","durationMinutes":60,"location":"","notes":"","priority":5}''
   \<and> BuildJSON w (e\<lparr>Location := ''b","notes":"c'', Notes := ''d''\<rparr>)
     = BuildJSON w (e\<lparr>Location := ''b'', Notes := ''c","notes":"d''\<rparr>)
   \<and> e\<lparr>Location := ''b","notes":"c'', Notes := ''d''\<rparr> \<noteq> e\<lparr>Location := ''b'', Notes := ''c","notes":"d''\<rparr>\<close>
proof -
  have shown: "IntToString 0 = ''0''" "IntToString 60 = ''60''" "IntToString 5 = ''5''"
    by (simp_all add: IntToString_def)
  have one: \<open>BuildJSON ExampleWorld (FCalendarEventData_default\<lparr>EventName := ''a"b''\<rparr>)
     = ''{"type":"create_calendar_event","eventName":"a"b","dateTime":"0","durationMinutes":60,"location":"","notes":"","priority":5}''\<close>
    by (simp add: BuildJSON_def ExampleWorld_def FCalendarEventData_default_def shown)
  have two: \<open>BuildJSON w (e\<lparr>Location := ''b","notes":"c'', Notes := ''d''\<rparr>)
     = BuildJSON w (e\<lparr>Location := ''b'', Notes := ''c","notes":"d''\<rparr>)\<close>
    by (simp add: BuildJSON_def)
  have three: \<open>e\<lparr>Location := ''b","notes":"c'', Notes := ''d''\<rparr> \<noteq> e\<lparr>Location := ''b'', Notes := ''c","notes":"d''\<rparr>\<close>
  proof
    assume \<open>e\<lparr>Location := ''b","notes":"c'', Notes := ''d''\<rparr> = e\<lparr>Location := ''b'', Notes := ''c","notes":"d''\<rparr>\<close>
    then have \<open>Notes (e\<lparr>Location := ''b","notes":"c'', Notes := ''d''\<rparr>) = Notes (e\<lparr>Location := ''b'', Notes := ''c","notes":"d''\<rparr>)\<close>
      by (rule arg_cong)
    then show False by simp
  qed
  from one two three show ?thesis by blast
qed

subsection \<open>Durations\<close>

lemma DigitValue_nonneg: "0 \<le> DigitValue c"
  by (simp add: DigitValue_def)

lemma DecimalValue_nonneg: "0 \<le> acc \<Longrightarrow> 0 \<le> DecimalValue acc s"
  by (induction s arbitrary: acc) (simp_all add: DigitValue_nonneg)

lemma Atoi_range: "0 \<le> Atoi s \<and> Atoi s \<le> INT32_MAX"
  using DecimalValue_nonneg [of 0 s] by (simp add: Atoi_def Let_def INT32_MAX_def)

lemma ExtractNumber_range: "0 \<le> ExtractNumber s \<and> ExtractNumber s \<le> INT32_MAX"
  using Atoi_range by (simp add: ExtractNumber_def Let_def INT32_MAX_def)

lemma wrap32_range: "INT32_MIN \<le> wrap32 x \<and> wrap32 x \<le> INT32_MAX"
proof -
  have "0 \<le> (x + 2147483648) mod 4294967296" by simp
  moreover have "(x + 2147483648) mod 4294967296 < 4294967296" by simp
  ultimately show ?thesis
    unfolding wrap32_def INT32_MIN_def INT32_MAX_def by linarith
qed

lemma wrap32_fits: "INT32_MIN \<le> x \<Longrightarrow> x \<le> INT32_MAX \<Longrightarrow> wrap32 x = x"
  by (simp add: wrap32_def INT32_MIN_def INT32_MAX_def)

lemma ParseDuration_examples:
  "ParseDuration ''1 hour'' = 60" "ParseDuration ''30 minutes'' = 30"
  "ParseDuration ''45'' = 45" "ParseDuration ''banana'' = 0"
  by (simp_all add: ParseDuration_def text_eval number_eval)

text \<open>
  Claim C7, as amended. With \<open>n\<close> the number that \<^verbatim>\<open>ExtractNumber\<close> finds in the
  lower-cased, trimmed input: the result is 0 when \<open>n\<close> is not positive (which covers an
  input without digits); it is \<open>n * 60\<close> when the input contains "hour" and that product
  is an \<^verbatim>\<open>int32\<close>; it is \<open>n\<close> when the input does not contain "hour", whether it names
  minutes or no unit at all. The result is always an \<^verbatim>\<open>int32\<close>. The four inputs of the
  specification give 60, 30, 45 and 0.
\<close>

theorem ParseDuration_rule:
  "(ExtractNumber (TrimStartAndEnd (ToLower Input)) \<le> 0 \<longrightarrow> ParseDuration Input = 0)
   \<and> (0 < ExtractNumber (TrimStartAndEnd (ToLower Input))
        \<and> Contains (TrimStartAndEnd (ToLower Input)) ''hour''
        \<and> ExtractNumber (TrimStartAndEnd (ToLower Input)) * 60 \<le> INT32_MAX
        \<longrightarrow> ParseDuration Input = ExtractNumber (TrimStartAndEnd (ToLower Input)) * 60)
   \<and> (0 < ExtractNumber (TrimStartAndEnd (ToLower Input))
        \<and> \<not> Contains (TrimStartAndEnd (ToLower Input)) ''hour''
        \<longrightarrow> ParseDuration Input = ExtractNumber (TrimStartAndEnd (ToLower Input)))
   \<and> INT32_MIN \<le> ParseDuration Input \<and> ParseDuration Input \<le> INT32_MAX
   \<and> ParseDuration ''1 hour'' = 60 \<and> ParseDuration ''30 minutes'' = 30
   \<and> ParseDuration ''45'' = 45 \<and> ParseDuration ''banana'' = 0"
proof -
  let ?n = "ExtractNumber (TrimStartAndEnd (ToLower Input))"
  let ?hour = "Contains (TrimStartAndEnd (ToLower Input)) ''hour''"
  have zero: "?n \<le> 0 \<longrightarrow> ParseDuration Input = 0"
    by (simp add: ParseDuration_def Let_def)
  have hours: "0 < ?n \<and> ?hour \<and> ?n * 60 \<le> INT32_MAX \<longrightarrow> ParseDuration Input = ?n * 60"
  proof (intro impI)
    assume a: "0 < ?n \<and> ?hour \<and> ?n * 60 \<le> INT32_MAX"
    then have "INT32_MIN \<le> ?n * 60" by (simp add: INT32_MIN_def)
    with a have "wrap32 (?n * 60) = ?n * 60" by (simp add: wrap32_fits)
    with a show "ParseDuration Input = ?n * 60"
      by (simp add: ParseDuration_def Let_def)
  qed
  have minutes: "0 < ?n \<and> \<not> ?hour \<longrightarrow> ParseDuration Input = ?n"
    by (simp add: ParseDuration_def Let_def)
  have range: "INT32_MIN \<le> ParseDuration Input \<and> ParseDuration Input \<le> INT32_MAX"
    using ExtractNumber_range [of "TrimStartAndEnd (ToLower Input)"] wrap32_range [of "?n * 60"]
    by (simp add: ParseDuration_def Let_def INT32_MIN_def)
  from zero hours minutes range ParseDuration_examples show ?thesis by blast
qed

theorem ParseDuration_rule_witness:
  "0 < ExtractNumber (TrimStartAndEnd (ToLower ''2 Hours''))
   \<and> Contains (TrimStartAndEnd (ToLower ''2 Hours'')) ''hour''
   \<and> ExtractNumber (TrimStartAndEnd (ToLower ''2 Hours'')) * 60 \<le> INT32_MAX
   \<and> ParseDuration ''2 Hours'' = 120
   \<and> ExtractNumber (TrimStartAndEnd (ToLower ''about 20'')) = 20
   \<and> \<not> Contains (TrimStartAndEnd (ToLower ''about 20'')) ''hour''
   \<and> ParseDuration ''about 20'' = 20
   \<and> ExtractNumber (TrimStartAndEnd (ToLower ''soon'')) = 0
   \<and> ParseDuration ''soon'' = 0"
proof -
  have n1: "ExtractNumber (TrimStartAndEnd (ToLower ''2 Hours'')) = 2"
    by (simp add: text_eval number_eval)
  have u1: "Contains (TrimStartAndEnd (ToLower ''2 Hours'')) ''hour''"
    by (simp add: text_eval)
  have n2: "ExtractNumber (TrimStartAndEnd (ToLower ''about 20'')) = 20"
    by (simp add: text_eval number_eval)
  have u2: "\<not> Contains (TrimStartAndEnd (ToLower ''about 20'')) ''hour''"
    by (simp add: text_eval)
  have n3: "ExtractNumber (TrimStartAndEnd (ToLower ''soon'')) = 0"
    by (simp add: text_eval number_eval)
  have fits: "(2::int) * 60 \<le> INT32_MAX" by (simp add: INT32_MAX_def)
  from ParseDuration_rule [of "''2 Hours''"] n1 u1 fits have "ParseDuration ''2 Hours'' = 120"
    by simp
  moreover from ParseDuration_rule [of "''about 20''"] n2 u2 have "ParseDuration ''about 20'' = 20"
    by simp
  moreover from ParseDuration_rule [of "''soon''"] n3 have "ParseDuration ''soon'' = 0"
    by simp
  ultimately show ?thesis using n1 u1 n2 u2 n3 fits by simp
qed

text \<open>
  The claim as it stands fails where the product leaves \<^verbatim>\<open>int32\<close>: forty million hours
  are not 2400000000 minutes.
\<close>

theorem ParseDuration_hours_overflow:
  "ExtractNumber (TrimStartAndEnd (ToLower ''40000000 hours'')) = 40000000
   \<and> Contains (TrimStartAndEnd (ToLower ''40000000 hours'')) ''hour''
   \<and> ParseDuration ''40000000 hours'' = - 1894967296
   \<and> ParseDuration ''40000000 hours'' \<noteq> 40000000 * 60"
proof -
  have n: "ExtractNumber (TrimStartAndEnd (ToLower ''40000000 hours'')) = 40000000"
    by (simp add: text_eval number_eval)
  have u: "Contains (TrimStartAndEnd (ToLower ''40000000 hours'')) ''hour''"
    by (simp add: text_eval)
  have "ParseDuration ''40000000 hours'' = wrap32 (40000000 * 60)"
    using n u by (simp add: ParseDuration_def Let_def)
  then have "ParseDuration ''40000000 hours'' = - 1894967296"
    by (simp add: wrap32_def)
  with n u show ?thesis by simp
qed

subsection \<open>What handlers and the manager find\<close>

lemma list_all_LogCalendar: "list_all InPlace (LogCalendar m b)"
  by (simp add: LogCalendar_def InPlace_def)

lemma list_all_AskCurrentQuestion: "list_all InPlace (AskCurrentQuestion w c)"
  by (cases "CurrentState c") (simp_all add: AskCurrentQuestion_def LogCalendar_def InPlace_def)

lemma list_all_CancelFlow: "list_all InPlace (snd (CancelFlow c))"
  by (simp add: CancelFlow_result LogCalendar_def InPlace_def)

lemma list_all_StartEventCreation: "list_all InPlace (snd (StartEventCreation w c))"
  by (simp add: StartEventCreation_def Let_def list_all_LogCalendar list_all_AskCurrentQuestion)

lemma list_all_SendEventToBackend:
  assumes "CurrentState c = Creating"
  shows "list_all InPlace (snd (SendEventToBackend w c))"
  using assms
  by (simp add: SendEventToBackend_def LogCalendar_def InPlace_def split: list.splits option.splits)

lemma list_all_AdvanceToNextState: "list_all InPlace (snd (AdvanceToNextState w c))"
proof (cases "CurrentState c")
  case Confirming
  then show ?thesis
    by (simp add: AdvanceToNextState_Confirming list_all_SendEventToBackend)
qed (simp_all add: AdvanceToNextState_def list_all_AskCurrentQuestion)

lemma list_all_ParseDateTime:
  assumes "ParseDateTime w Input = Inr (t, parse_log)"
  shows "list_all InPlace parse_log"
  using ParseDateTime_effects [OF assms] by (auto simp: list_all_LogCalendar)

lemma list_all_ProcessAnswer:
  assumes "ProcessAnswer w c Answer = Inr (b, c1, answered)"
  shows "list_all InPlace answered"
proof (cases "CurrentState c")
  case AskingDateTime
  show ?thesis
  proof (cases "ParseDateTime w Answer")
    case (Inl e)
    with assms AskingDateTime show ?thesis
      by (simp add: ProcessAnswer_def ProcessDateTime_def)
  next
    case (Inr r)
    obtain t parse_log where r: "r = (t, parse_log)" by (cases r)
    with Inr have p: "ParseDateTime w Answer = Inr (t, parse_log)" by simp
    from assms AskingDateTime p
    have "answered = parse_log \<or> (\<exists>m. answered = parse_log @ LogCalendar m False)"
      by (auto simp: ProcessAnswer_def ProcessDateTime_def Let_def split: if_splits)
    with list_all_ParseDateTime [OF p] show ?thesis
      by (auto simp: list_all_LogCalendar)
  qed
next
  case Confirming
  with assms show ?thesis
    by (auto simp: ProcessAnswer_def ProcessConfirmation_def CancelFlow_result LogCalendar_def
        InPlace_def Let_def split: if_splits)
qed (use assms in \<open>auto simp: ProcessAnswer_def ProcessEventName_def ProcessDuration_def
      ProcessLocation_def ProcessNotes_def ProcessPriority_def Let_def list_all_LogCalendar
      split: if_splits\<close>)

lemma list_all_ProcessUserResponse:
  assumes "ProcessUserResponse w c Response = Inr (c1, out)"
  shows "list_all InPlace out"
proof (cases "CurrentState c = Idle")
  case True
  with assms show ?thesis by (auto simp: ProcessUserResponse_Idle list_all_LogCalendar)
next
  case False
  obtain b c' answered where pa: "ProcessAnswer w c Response = Inr (b, c', answered)"
  proof (cases "ProcessAnswer w c Response")
    case (Inl e)
    with assms False have False by (simp add: ProcessUserResponse_def)
    then show ?thesis ..
  next
    case (Inr r)
    with that show ?thesis by (cases r) auto
  qed
  note quiet = list_all_ProcessAnswer [OF pa]
  show ?thesis
  proof (cases b)
    case True
    with ProcessUserResponse_accepted [OF False, of w Response c' answered] pa assms quiet
    show ?thesis
      by (auto simp: list_all_LogCalendar list_all_AdvanceToNextState)
  next
    case no: False
    with ProcessUserResponse_rejected [OF False, of w Response c' answered] pa assms quiet
    show ?thesis
      by (auto simp: list_all_LogCalendar list_all_AskCurrentQuestion)
  qed
qed

lemma list_all_Invoke:
  assumes "Invoke w k c = Inr (c1, out)"
  shows "list_all InPlace out"
proof (cases k)
  case Call_StartEventCreation
  with assms list_all_StartEventCreation [of w c] show ?thesis by auto
next
  case (Call_ProcessUserResponse Response)
  with assms list_all_ProcessUserResponse show ?thesis by simp
next
  case Call_CancelFlow
  with assms list_all_CancelFlow [of c] show ?thesis by auto
qed

lemma list_all_Run:
  assumes "Run calls c = Inr (c1, out)"
  shows "list_all InPlace out"
  using assms
proof (induction calls arbitrary: c out)
  case Nil
  then show ?case by simp
next
  case (Cons wk calls)
  obtain w k where wk: "wk = (w, k)" by (cases wk)
  with Cons.prems obtain c' first later where
    step: "Invoke w k c = Inr (c', first)" and rest: "Run calls c' = Inr (c1, later)"
    and out: "out = first @ later"
    by (auto split: sum.splits)
  from list_all_Invoke [OF step] Cons.IH [OF rest] out show ?case by simp
qed

lemma StatesSeen_member:
  "(s \<in> set (StatesSeen out)) = (\<exists>e \<in> set out. \<exists>c. Outside e = Some c \<and> GetCurrentState c = s)"
  by (induction out) (auto split: option.splits)

lemma EventsCreated_member:
  assumes "EventsCreated out = e # es"
  shows "\<exists>c. OnEventCreated c e \<in> set out"
  using assms by (induction out arbitrary: e es rule: EventsCreated.induct) auto

text \<open>
  Claim C10, as amended. Whatever public calls are made one after the other on a freshly
  constructed component, in whatever worlds, once the last of them has returned
  \<^verbatim>\<open>GetCurrentState\<close> is \<^verbatim>\<open>Idle\<close>, one of the six asking states or \<^verbatim>\<open>Confirming\<close>.
  While the calls run, no handler and no manager finds the component in \<^verbatim>\<open>Complete\<close>;
  they find it in \<^verbatim>\<open>Creating\<close> exactly in the hand-off, that is in the manager's
  \<^verbatim>\<open>SendMessageToBackend\<close> and in the handlers of \<^verbatim>\<open>OnEventCreated\<close>.
\<close>

theorem visible_states_between_calls:
  assumes "Run calls UCalendarDialogueComponent_new = Inr (c, out)"
  shows "GetCurrentState c \<in> {Idle, AskingEventName, AskingDateTime, AskingDuration,
           AskingLocation, AskingNotes, AskingPriority, Confirming}
         \<and> Complete \<notin> set (StatesSeen out)
         \<and> (\<forall>e \<in> set out. \<forall>s. Outside e = Some s \<longrightarrow>
               (GetCurrentState s = Creating) = HandOff e)"
proof -
  have "CurrentState UCalendarDialogueComponent_new \<notin> {Creating, Complete}"
    by (simp add: UCalendarDialogueComponent_new_def)
  from Run_visible [OF assms this]
  have after: "GetCurrentState c \<in> {Idle, AskingEventName, AskingDateTime, AskingDuration,
           AskingLocation, AskingNotes, AskingPriority, Confirming}"
    by (cases "CurrentState c") (simp_all add: GetCurrentState_def)
  from list_all_Run [OF assms] have placed: "\<forall>e \<in> set out. InPlace e"
    by (simp add: list_all_iff)
  then have during: "\<forall>e \<in> set out. \<forall>s. Outside e = Some s \<longrightarrow>
      GetCurrentState s \<noteq> Complete \<and> (GetCurrentState s = Creating) = HandOff e"
    by (auto simp: InPlace_def GetCurrentState_def)
  then have "Complete \<notin> set (StatesSeen out)"
    by (auto simp: StatesSeen_member)
  with after during show ?thesis by blast
qed

theorem visible_states_between_calls_witness:
  "map_option GetCurrentState
     (FinalComponent (Run (HappyPath SameEvening) UCalendarDialogueComponent_new)) = Some Idle
   \<and> Idle \<in> {Idle, AskingEventName, AskingDateTime, AskingDuration,
           AskingLocation, AskingNotes, AskingPriority, Confirming}
   \<and> Complete \<notin> set (StatesSeen
        (AllEffects (Run (HappyPath SameEvening) UCalendarDialogueComponent_new)))"
proof -
  have h: "FoundActors (SameEvening 7) = Some 0 # []"
    by (simp add: SameEvening_def ExampleWorld_def)
  from happy_path_run [where w = SameEvening and ?c0.0 = UCalendarDialogueComponent_new, OF h]
  obtain c out where run: "Run (HappyPath SameEvening) UCalendarDialogueComponent_new = Inr (c, out)"
    and idle: "CurrentState c = Idle"
    by auto
  from visible_states_between_calls [OF run] have "Complete \<notin> set (StatesSeen out)"
    by blast
  with run idle show ?thesis by (simp add: GetCurrentState_def)
qed

text \<open>
  The claim as it stands fails on the happy path: in the hand-off of the last answer, the
  manager and the handlers of \<^verbatim>\<open>OnEventCreated\<close> run while \<^verbatim>\<open>CurrentState\<close> is
  \<^verbatim>\<open>Creating\<close>, and \<^verbatim>\<open>GetCurrentState\<close> returns that to them.
\<close>

theorem Creating_seen_in_hand_off:
  "Creating \<in> set (StatesSeen
     (AllEffects (Run (HappyPath SameEvening) UCalendarDialogueComponent_new)))
   \<and> StatesSeen (snd (AdvanceToNextState ExampleWorld
        (UCalendarDialogueComponent_new\<lparr>CurrentState := Confirming\<rparr>))) = [Creating, Creating]"
proof -
  have h: "FoundActors (SameEvening 7) = Some 0 # []"
    by (simp add: SameEvening_def ExampleWorld_def)
  from happy_path_run [where w = SameEvening and ?c0.0 = UCalendarDialogueComponent_new, OF h]
  obtain c out e where run: "Run (HappyPath SameEvening) UCalendarDialogueComponent_new = Inr (c, out)"
    and created: "EventsCreated out = [e]"
    by auto
  from EventsCreated_member [OF created] obtain s where s: "OnEventCreated s e \<in> set out"
    by blast
  from list_all_Run [OF run] s have "InPlace (OnEventCreated s e)"
    by (simp add: list_all_iff)
  then have "GetCurrentState s = Creating"
    by (simp add: InPlace_def GetCurrentState_def)
  with s have "Creating \<in> set (StatesSeen out)"
    by (auto simp: StatesSeen_member intro!: bexI [of _ "OnEventCreated s e"])
  moreover have "StatesSeen (snd (AdvanceToNextState ExampleWorld
        (UCalendarDialogueComponent_new\<lparr>CurrentState := Confirming\<rparr>))) = [Creating, Creating]"
    by (simp add: AdvanceToNextState_Confirming SendEventToBackend_def ExampleWorld_def
        LogCalendar_def GetCurrentState_def)
  ultimately show ?thesis using run by simp
qed

subsection \<open>Answers to the name question that trim to less than two characters\<close>

text \<open>
  Claim C2 at a blank before one letter, given as the answer to the first question. The
  answer trims to one character, so it fails the rule for the name. It is accepted all the
  same: the state moves from \<^verbatim>\<open>AskingEventName\<close> to \<^verbatim>\<open>AskingDateTime\<close>, the name in
  the record changes from the empty text to "a", and the question broadcast is the one
  for the date, not the one for the name again.
\<close>

theorem padded_name_not_asked_again:
  "length (TrimStartAndEnd '' a'') < 2
   \<and> FinalComponent (Run [(ExampleWorld, Call_StartEventCreation)] UCalendarDialogueComponent_new)
       = Some \<lparr>CurrentState = AskingEventName, EventData = FCalendarEventData_default\<rparr>
   \<and> FinalComponent (Run [(ExampleWorld, Call_StartEventCreation),
                           (ExampleWorld, Call_ProcessUserResponse '' a'')]
                          UCalendarDialogueComponent_new)
       = Some \<lparr>CurrentState = AskingDateTime,
               EventData = FCalendarEventData_default\<lparr>EventName := ''a''\<rparr>\<rparr>
   \<and> Questions (AllEffects (Run [(ExampleWorld, Call_StartEventCreation),
                                  (ExampleWorld, Call_ProcessUserResponse '' a'')]
                                 UCalendarDialogueComponent_new))
       = [''What would you like to call this event?'',
          ''When would you like to schedule it? (e.g., 'tomorrow at 2pm', 'November 5 at 3:30pm')'']
   \<and> EventName FCalendarEventData_default \<noteq> ''a''"
proof -
  let ?c1 = "\<lparr>CurrentState = AskingEventName, EventData = FCalendarEventData_default\<rparr>"
  let ?c2 = "\<lparr>CurrentState = AskingDateTime,
              EventData = FCalendarEventData_default\<lparr>EventName := ''a''\<rparr>\<rparr>"
  have trim: "TrimStartAndEnd '' a'' = ''a''"
    by (simp add: text_eval)
  from StartEventCreation_result [of ExampleWorld UCalendarDialogueComponent_new]
  obtain o0 where s0: "StartEventCreation ExampleWorld UCalendarDialogueComponent_new = (?c1, o0)"
    and q0: "Questions o0 = [''What would you like to call this event?'']"
    by blast
  have busy: "CurrentState ?c1 \<noteq> Idle" by simp
  have pa: "ProcessAnswer ExampleWorld ?c1 '' a'' =
      Inr (True, ?c1\<lparr>EventData := (EventData ?c1)\<lparr>EventName := ''a''\<rparr>\<rparr>,
           LogCalendar ''Event name set: a'' False)"
    by (simp add: ProcessAnswer_def ProcessEventName_def trim)
  have adv: "fst (AdvanceToNextState ExampleWorld
      (?c1\<lparr>EventData := (EventData ?c1)\<lparr>EventName := ''a''\<rparr>\<rparr>)) = ?c2"
    "Questions (snd (AdvanceToNextState ExampleWorld
      (?c1\<lparr>EventData := (EventData ?c1)\<lparr>EventName := ''a''\<rparr>\<rparr>)))
      = [''When would you like to schedule it? (e.g., 'tomorrow at 2pm', 'November 5 at 3:30pm')'']"
    by (simp_all add: AdvanceToNextState_def AskCurrentQuestion_def)
  from ProcessUserResponse_accepted [OF busy pa] adv
  obtain o1 where s1: "ProcessUserResponse ExampleWorld ?c1 '' a'' = Inr (?c2, o1)"
    and q1: "Questions o1
      = [''When would you like to schedule it? (e.g., 'tomorrow at 2pm', 'November 5 at 3:30pm')'']"
    by simp
  have "EventName FCalendarEventData_default \<noteq> ''a''"
    by (simp add: FCalendarEventData_default_def)
  with trim s0 q0 s1 q1 show ?thesis by simp
qed

end
